theory Spec2Isabelle
  imports Main "HOL-Library.Word" "HOL-Library.AList"
begin

unbundle bit_operations_syntax

section \<open>Machine types and opcode constants (patchmaker.cpp, lines 25-37)\<close>

type_synonym u8 = "8 word"
type_synonym u16 = "16 word"
type_synonym u32 = "32 word"

definition SizeOfHookBridge :: nat where
  "SizeOfHookBridge = 20"

definition SizeOfArm2ThumbJumpBridge :: nat where
  "SizeOfArm2ThumbJumpBridge = 8"

definition armOpcodeB :: u32 where
  "armOpcodeB = 0xEA000000"

definition armOpcodeBL :: u32 where
  "armOpcodeBL = 0xEB000000"

definition armOpCodeBLX :: u32 where
  "armOpCodeBLX = 0xFA000000"

definition armHookPush :: u32 where
  "armHookPush = 0xE92D500F"

definition armHookPop :: u32 where
  "armHookPop = 0xE8BD500F"

definition thumbOpCodeBL0 :: u16 where
  "thumbOpCodeBL0 = 0xF000"

definition thumbOpCodeBL1 :: u16 where
  "thumbOpCodeBL1 = 0xF800"

definition thumbOpCodeBLX1 :: u16 where
  "thumbOpCodeBLX1 = 0xE800"

definition thumbOpCodePushLR :: u16 where
  "thumbOpCodePushLR = 0xB500"

definition thumbOpCodePopPC :: u16 where
  "thumbOpCodePopPC = 0xBD00"

section \<open>Opcode encoders (patchmaker.cpp, lines 1238-1260)\<close>

text \<open>
  \<^verbatim>\<open>return opCode | ((((toAddr - fromAddr) >> 2) - 2) & 0xFFFFFF);\<close>
  All operands are \<open>u32\<close>: the subtraction wraps and the shift is logical.
\<close>

definition makeJumpOpCode :: "u32 \<Rightarrow> u32 \<Rightarrow> u32 \<Rightarrow> u32" where
  "makeJumpOpCode opCode fromAddr toAddr =
     opCode OR ((drop_bit 2 (toAddr - fromAddr) - 2) AND 0xFFFFFF)"

text \<open>
  \<^verbatim>\<open>u32 offset = ((toAddr - fromAddr) >> 1) - 2;
  u16 opcode0 = thumbOpCodeBL0 | (offset & 0x3FF800) >> 11;
  u16 opcode1 = opCode | (offset & 0x7FF);
  return opcode1 << 16 | opcode0;\<close>
  The two halfwords are computed in 32 bits and narrowed to \<open>u16\<close> on assignment; the
  result places \<open>opcode1\<close> in the upper and \<open>opcode0\<close> in the lower halfword.
\<close>

definition makeThumbJumpOpCode :: "u16 \<Rightarrow> u32 \<Rightarrow> u32 \<Rightarrow> u32" where
  "makeThumbJumpOpCode opCode fromAddr toAddr =
     (let offset = drop_bit 1 (toAddr - fromAddr) - 2;
          opcode0 = (ucast (ucast thumbOpCodeBL0 OR drop_bit 11 (offset AND 0x3FF800)) :: u16);
          opcode1 = (ucast (ucast opCode OR (offset AND 0x7FF)) :: u16)
      in push_bit 16 (ucast opcode1) OR ucast opcode0)"

definition fixupOpCode :: "u32 \<Rightarrow> u32 \<Rightarrow> u32 \<Rightarrow> u32" where
  "fixupOpCode opCode ogAddr newAddr =
     (if drop_bit 25 opCode AND 7 = 5
      then (let opCodeBase = opCode AND 0xFF000000;
                toAddr = push_bit 2 ((opCode AND 0xFFFFFF) + 2) + ogAddr
            in makeJumpOpCode opCodeBase newAddr toAddr)
      else opCode)"

text \<open>
  The decoding of an ARM branch as the specification words it for the round-trip law:
  the low 24 bits of the opcode are read as a signed \<open>imm24\<close>, and the target is
  \<open>((imm24 + 2) << 2) + F\<close>. This is the specification's decoder, not a function of
  the program.
\<close>

definition decodeBranchTarget :: "u32 \<Rightarrow> u32 \<Rightarrow> u32" where
  "decodeBranchTarget opc F = push_bit 2 (signed_take_bit 23 (opc AND 0xFFFFFF) + 2) + F"

section \<open>Little-endian byte traffic and the binaries\<close>

text \<open>
  Modelled from the spec: \<open>Util::write\<close> and the fixed-width reads and writes of
  the binaries are not under src/. "Endianness: little-endian for all fixed-width integer
  traffic."
\<close>

definition le_u16 :: "u16 \<Rightarrow> u8 list" where
  "le_u16 w = [ucast w, ucast (drop_bit 8 w)]"

definition le_u32 :: "u32 \<Rightarrow> u8 list" where
  "le_u32 w = [ucast w, ucast (drop_bit 8 w), ucast (drop_bit 16 w), ucast (drop_bit 24 w)]"

fun of_le_u32 :: "u8 list \<Rightarrow> u32" where
  "of_le_u32 (b0 # b1 # b2 # b3 # _) =
     ucast b0 OR push_bit 8 (ucast b1) OR push_bit 16 (ucast b2) OR push_bit 24 (ucast b3)"
| "of_le_u32 _ = 0"

text \<open>
  The files the overlay functions touch: the overlay \<open>id\<close> in the ROM tree
  (\<open><rom>/overlayN/overlayN_<id>.bin\<close>) and its backup
  (\<open><backup>/overlayN/overlayN_<id>.bin\<close>).
\<close>

datatype FilePath = RomOverlay nat | BakOverlay nat

datatype file_error_kind = fe_find | fe_read | fe_write

text \<open>
  What the functions throw: \<open>ncp::file_error\<close>, \<open>ncp::exception\<close> with a fixed message, the
  message of \<open>failInject\<close> (inject type, \<open>srcThumb\<close>, \<open>destThumb\<close>, symbol), and an access
  outside a buffer.
\<close>

datatype ncp_error =
    file_error FilePath file_error_kind
  | exception string
  | fail_inject string bool bool string
  | access_out_of_range

text \<open>
  Modelled from the spec: \<open>ICodeBin\<close>, \<open>ArmBin\<close> and \<open>OverlayBin\<close> are not under src/. A
  binary is its RAM base and its bytes (\<open>data()\<close>); "implementations map addr by subtracting
  a known RAM base", and "out-of-range access is a fatal error". An overlay also keeps the
  bytes of its first load (\<open>backupData()\<close>); its dirty flag plays no part here.
\<close>

record ICodeBin =
  bin_ramAddress :: u32
  bin_data :: "u8 list"

record OverlayBin = ICodeBin +
  backupData :: "u8 list"

definition in_range :: "'a ICodeBin_scheme \<Rightarrow> u32 \<Rightarrow> nat \<Rightarrow> bool" where
  "in_range bin addr n = (unat (addr - bin_ramAddress bin) + n \<le> length (bin_data bin))"

definition read_u32 :: "'a ICodeBin_scheme \<Rightarrow> u32 \<Rightarrow> ncp_error + u32" where
  "read_u32 bin addr =
     (if in_range bin addr 4
      then Inr (of_le_u32 (take 4 (drop (unat (addr - bin_ramAddress bin)) (bin_data bin))))
      else Inl access_out_of_range)"

definition writeBytes ::
  "'a ICodeBin_scheme \<Rightarrow> u32 \<Rightarrow> u8 list \<Rightarrow> ncp_error + 'a ICodeBin_scheme" where
  "writeBytes bin addr bs =
     (if in_range bin addr (length bs)
      then (let off = unat (addr - bin_ramAddress bin)
            in Inr (bin\<lparr>bin_data :=
                      take off (bin_data bin) @ bs @ drop (off + length bs) (bin_data bin)\<rparr>))
      else Inl access_out_of_range)"

definition write_u32 :: "'a ICodeBin_scheme \<Rightarrow> u32 \<Rightarrow> u32 \<Rightarrow> ncp_error + 'a ICodeBin_scheme" where
  "write_u32 bin addr v = writeBytes bin addr (le_u32 v)"

section \<open>Patch records (patchmaker.cpp, lines 39-116)\<close>

text \<open>
  The anonymous enum of \<open>PatchType\<close>: the parser does arithmetic on these indices, so they
  are numbers, in the order of the enum and of \<open>s_patchTypeNames\<close>.
\<close>

definition PatchType_Jump :: nat where "PatchType_Jump = 0"
definition PatchType_Call :: nat where "PatchType_Call = 1"
definition PatchType_Hook :: nat where "PatchType_Hook = 2"
definition PatchType_Over :: nat where "PatchType_Over = 3"
definition PatchType_SetJump :: nat where "PatchType_SetJump = 4"
definition PatchType_SetCall :: nat where "PatchType_SetCall = 5"
definition PatchType_SetHook :: nat where "PatchType_SetHook = 6"
definition PatchType_RtRepl :: nat where "PatchType_RtRepl = 7"
definition PatchType_TJump :: nat where "PatchType_TJump = 8"
definition PatchType_TCall :: nat where "PatchType_TCall = 9"
definition PatchType_THook :: nat where "PatchType_THook = 10"
definition PatchType_TSetJump :: nat where "PatchType_TSetJump = 11"
definition PatchType_TSetCall :: nat where "PatchType_TSetCall = 12"
definition PatchType_TSetHook :: nat where "PatchType_TSetHook = 13"

definition s_patchTypeNames :: "string list" where
  "s_patchTypeNames =
     [''jump'', ''call'', ''hook'', ''over'',
      ''setjump'', ''setcall'', ''sethook'',
      ''rtrepl'',
      ''tjump'', ''tcall'', ''thook'',
      ''tsetjump'', ''tsetcall'', ''tsethook'']"

text \<open>
  \<open>BuildTarget::Region\<close> and \<open>SourceFileJob\<close> are declared outside src/; the fields are the
  ones the specification lists. Integers that the source keeps in \<open>int\<close> are \<open>int\<close> here.
\<close>

datatype Mode = Append | Replace | Create

record Region =
  destination :: int
  mode :: Mode
  region_address :: u32
  region_length :: int

record SourceFileJob =
  srcFilePath :: string
  objFilePath :: string
  region :: Region

record GenericPatchInfo =
  srcAddress :: u32
  srcAddressOv :: int
  destAddress :: u32
  destAddressOv :: int
  patchType :: nat
  sectionIdx :: int
  sectionSize :: int
  isNcpSet :: bool
  srcThumb :: bool
  destThumb :: bool
  symbol :: string
  job :: SourceFileJob

record RtReplPatchInfo =
  rtrepl_symbol :: string
  rtrepl_job :: SourceFileJob

record AutogenDataInfo =
  address :: u32
  curAddress :: u32
  data :: "u8 list"

text \<open>
  \<open>LDSRegionEntry\<close> without its \<open>memory\<close> and \<open>region\<close> pointers, which only serve the text
  of the linker script. Its size is a \<open>std::size_t\<close> sum of at most 20 bytes per patch, a
  natural number here.
\<close>

record LDSRegionEntry =
  dest :: int
  autogenDataSize :: nat
  sectionPatches :: "GenericPatchInfo list"

text \<open>
  Modelled from the spec: \<open>OvtEntry\<close> is declared outside src/. "ram_address:u32,
  ram_size:u32, bss_size:u32, sinit_start:u32, sinit_end:u32, file_id:u32,
  compressed:u24+flag:u8".
\<close>

record OvtEntry =
  ramAddress :: u32
  ramSize :: u32
  bssSize :: u32
  sinitStart :: u32
  sinitEnd :: u32
  fileID :: u32
  compressed :: "24 word"
  flag :: u8

section \<open>Directive parser (patchmaker.cpp, lines 272-381)\<close>

primrec first_index :: "'a \<Rightarrow> 'a list \<Rightarrow> nat option" where
  "first_index c [] = None"
| "first_index c (x # xs) = (if x = c then Some 0 else map_option Suc (first_index c xs))"

text \<open>\<^verbatim>\<open>std::string_view::find(c, pos)\<close>: \<open>None\<close> stands for \<open>npos\<close>.\<close>

definition sv_find :: "string \<Rightarrow> char \<Rightarrow> nat \<Rightarrow> nat option" where
  "sv_find s c pos = map_option (\<lambda>i. i + pos) (first_index c (drop pos s))"

text \<open>\<^verbatim>\<open>std::string_view::substr(pos, n)\<close>, at the positions the parser uses (never past the end).\<close>

definition substr :: "string \<Rightarrow> nat \<Rightarrow> nat \<Rightarrow> string" where
  "substr s pos n = take n (drop pos s)"

definition starts_with :: "string \<Rightarrow> string \<Rightarrow> bool" where
  "starts_with s p = (take (length p) s = p)"

text \<open>
  Modelled from the spec: \<open>Util::indexOf\<close> is not under src/. The specification says the
  kind "is matched against the ordered enum"; the parser compares the result with \<open>-1\<close>,
  which is \<open>None\<close> here.
\<close>

definition Util_indexOf :: "string \<Rightarrow> string list \<Rightarrow> nat option" where
  "Util_indexOf name names = first_index name names"

datatype ParseWarning =
    InvalidPatchType
  | OverMustBeSection
  | InvalidAddress
  | ExpectedOverlay
  | InvalidOverlay

datatype ParseOutcome =
    NoDirective
  | Warning ParseWarning
  | RtRepl "RtReplPatchInfo option"
  | Patch GenericPatchInfo

text \<open>
  The overlay suffix of a directive (lines 343-360). \<open>addrToInt\<close> is \<open>Util::addrToInt\<close>,
  which is not under src/: it is a parameter, \<open>None\<close> where it throws. Its result is
  stored in an \<open>int\<close>.
\<close>

definition parseOverlay :: "(string \<Rightarrow> u32 option) \<Rightarrow> string \<Rightarrow> nat \<Rightarrow> ParseWarning + int" where
  "parseOverlay addrToInt labelName addressNameEnd =
     (let overlayNameStart = addressNameEnd + 1;
          overlayNameEnd = length labelName;
          overlayName = substr labelName overlayNameStart (overlayNameEnd - overlayNameStart)
      in if \<not> starts_with overlayName ''ov''
         then Inl ExpectedOverlay
         else (case addrToInt (drop 2 overlayName) of
                 None \<Rightarrow> Inl InvalidOverlay
               | Some ov \<Rightarrow> Inr (sint ov)))"

text \<open>
  Lines 305-322: the \<open>t\<close> prefix and the \<open>set\<close> prefix are stripped from the kind in turn.
  The result is the underlying kind, \<open>forceThumb\<close> and \<open>isNcpSet\<close>.
\<close>

definition stripPrefixes :: "nat \<Rightarrow> nat \<times> bool \<times> bool" where
  "stripPrefixes patchType0 =
     (let isT = (PatchType_TJump \<le> patchType0 \<and> patchType0 \<le> PatchType_THook);
          isTSet = (PatchType_TSetJump \<le> patchType0 \<and> patchType0 \<le> PatchType_TSetHook);
          patchType1 =
            (if isT then patchType0 - (PatchType_TJump - PatchType_Jump)
             else if isTSet then patchType0 - (PatchType_TSetJump - PatchType_SetJump)
             else patchType0);
          forceThumb = (isT \<or> isTSet);
          isNcpSet' = (PatchType_SetJump \<le> patchType1 \<and> patchType1 \<le> PatchType_SetHook);
          patchType2 =
            (if isNcpSet' then patchType1 - (PatchType_SetJump - PatchType_Jump)
             else patchType1)
      in (patchType2, forceThumb, isNcpSet'))"

text \<open>
  Lines 324-377: the address and the optional overlay are read from the label, and the
  record is built. \<open>None\<close> from \<open>addrToInt\<close> is the exception the parser catches.
\<close>

definition parseAddressAndBuild ::
  "(string \<Rightarrow> u32 option) \<Rightarrow> SourceFileJob \<Rightarrow> string \<Rightarrow> u32 \<Rightarrow> int \<Rightarrow> int
     \<Rightarrow> string \<Rightarrow> nat \<Rightarrow> nat \<times> bool \<times> bool \<Rightarrow> ParseOutcome" where
  "parseAddressAndBuild addrToInt srcFileJob symbolName symbolAddr sectionIdx' sectionSize'
       labelName patchTypeNameEnd kind =
     (case kind of (patchType', forceThumb, isNcpSet') \<Rightarrow>
       (let addressNameStart = patchTypeNameEnd + 1;
            found = sv_find labelName CHR ''_'' addressNameStart;
            expectingOverlay = (found \<noteq> None);
            addressNameEnd = (case found of None \<Rightarrow> length labelName | Some e \<Rightarrow> e);
            addressName = substr labelName addressNameStart (addressNameEnd - addressNameStart)
        in case addrToInt addressName of
          None \<Rightarrow> Warning InvalidAddress
        | Some destAddress0 \<Rightarrow>
           (let destAddress1 = (if forceThumb then destAddress0 OR 1 else destAddress0)
            in case (if expectingOverlay
                     then parseOverlay addrToInt labelName addressNameEnd
                     else Inr (-1)) of
              Inl w \<Rightarrow> Warning w
            | Inr destAddressOv' \<Rightarrow>
               Patch \<lparr>srcAddress = 0,
                      srcAddressOv =
                        (if patchType' = PatchType_Over then destAddressOv'
                         else destination (region srcFileJob)),
                      destAddress = destAddress1 AND NOT 1,
                      destAddressOv = destAddressOv',
                      patchType = patchType',
                      sectionIdx = sectionIdx',
                      sectionSize = sectionSize',
                      isNcpSet = isNcpSet',
                      srcThumb = (symbolAddr AND 1 \<noteq> 0),
                      destThumb = (destAddress1 AND 1 \<noteq> 0),
                      symbol = symbolName,
                      job = srcFileJob\<rparr>)))"

text \<open>
  The lambda \<open>parseSymbol\<close> (lines 272-381): what it does with one section name or symbol
  name. A section name starts with \<open>.ncp_\<close> and a label with \<open>ncp_\<close>, which is why 5 or 4
  characters are dropped.
\<close>

definition parseSymbol ::
  "(string \<Rightarrow> u32 option) \<Rightarrow> SourceFileJob \<Rightarrow> string \<Rightarrow> u32 \<Rightarrow> int \<Rightarrow> int \<Rightarrow> ParseOutcome" where
  "parseSymbol addrToInt srcFileJob symbolName symbolAddr sectionIdx' sectionSize' =
     (let labelName = drop (if sectionIdx' \<noteq> -1 then 5 else 4) symbolName
      in case sv_find labelName CHR ''_'' 0 of
        None \<Rightarrow> NoDirective
      | Some patchTypeNameEnd \<Rightarrow>
         (let patchTypeName = substr labelName 0 patchTypeNameEnd
          in case Util_indexOf patchTypeName s_patchTypeNames of
            None \<Rightarrow> Warning InvalidPatchType
          | Some patchType0 \<Rightarrow>
             if patchType0 = PatchType_Over \<and> sectionIdx' = -1
             then Warning OverMustBeSection
             else if patchType0 = PatchType_RtRepl
             then RtRepl (if sectionIdx' \<noteq> -1
                          then Some \<lparr>rtrepl_symbol = symbolName, rtrepl_job = srcFileJob\<rparr>
                          else None)
             else parseAddressAndBuild addrToInt srcFileJob symbolName symbolAddr
                    sectionIdx' sectionSize' labelName patchTypeNameEnd
                    (stripPrefixes patchType0)))"

text \<open>
  Modelled from the spec: \<open>Util::addrToInt\<close> is not under src/. The directive grammar is
  \<open><kind>_<hexaddr>[_ov<N>]\<close>; this reader accepts a non-empty run of hexadecimal digits
  and nothing else. It only instantiates the parameter of \<open>parseSymbol\<close> at concrete inputs.
\<close>

definition hexDigit :: "char \<Rightarrow> nat option" where
  "hexDigit c =
     (let n = of_char c :: nat
      in if 48 \<le> n \<and> n \<le> 57 then Some (n - 48)
         else if 65 \<le> n \<and> n \<le> 70 then Some (n - 55)
         else if 97 \<le> n \<and> n \<le> 102 then Some (n - 87)
         else None)"

fun hexValue :: "nat \<Rightarrow> string \<Rightarrow> nat option" where
  "hexValue acc [] = Some acc"
| "hexValue acc (c # cs) =
     (case hexDigit c of None \<Rightarrow> None | Some d \<Rightarrow> hexValue (16 * acc + d) cs)"

definition addrToInt_hex :: "string \<Rightarrow> u32 option" where
  "addrToInt_hex s = (if s = [] then None else map_option of_nat (hexValue 0 s))"

section \<open>Autogen reservation in the layout planner (patchmaker.cpp, lines 756-818)\<close>

text \<open>One \<open>LDSRegionEntry\<close> per region of the target, as line 775 creates it.\<close>

definition newRegionEntry :: "Region \<Rightarrow> LDSRegionEntry" where
  "newRegionEntry r = \<lparr>dest = destination r, autogenDataSize = 0, sectionPatches = []\<rparr>"

definition updateRegionEntry :: "GenericPatchInfo \<Rightarrow> LDSRegionEntry \<Rightarrow> LDSRegionEntry" where
  "updateRegionEntry info ldsRegion =
     (if dest ldsRegion = destination (region (job info))
      then (let r1 = (if sectionIdx info \<noteq> -1
                      then ldsRegion\<lparr>sectionPatches := sectionPatches ldsRegion @ [info]\<rparr>
                      else ldsRegion)
            in if patchType info = PatchType_Hook
               then r1\<lparr>autogenDataSize := autogenDataSize r1 + SizeOfHookBridge\<rparr>
               else if patchType info = PatchType_Jump
               then (if \<not> destThumb info \<and> srcThumb info
                     then r1\<lparr>autogenDataSize := autogenDataSize r1 + SizeOfArm2ThumbJumpBridge\<rparr>
                     else r1)
               else r1)
      else ldsRegion)"

text \<open>
  The body of the loop over \<open>m_patchInfo\<close>: an \<open>over\<close> patch only adds a memory entry
  (not modelled), every other patch visits every region entry.
\<close>

definition planPatch :: "LDSRegionEntry list \<Rightarrow> GenericPatchInfo \<Rightarrow> LDSRegionEntry list" where
  "planPatch regionEntries info =
     (if patchType info = PatchType_Over then regionEntries
      else map (updateRegionEntry info) regionEntries)"

text \<open>
  The region entries after the loop, from the regions in the order the sort left them
  (the sums do not depend on that order).
\<close>

definition createLinkerScript_regions ::
  "Region list \<Rightarrow> GenericPatchInfo list \<Rightarrow> LDSRegionEntry list" where
  "createLinkerScript_regions orderedRegions patchInfo =
     foldl planPatch (map newRegionEntry orderedRegions) patchInfo"

section \<open>Overlap check of the post-link resolver (patchmaker.cpp, lines 1149-1172)\<close>











section \<open>Patch maker state\<close>

text \<open>
  The members of \<open>PatchMaker\<close> that loading, patching and saving touch, with the files
  of the ROM tree and of the backup directory. \<open>m_loadedOverlays\<close> keeps insertion order;
  lookups take the first entry with the key. The main ARM binary is used through the
  \<open>ICodeBin\<close> interface only.
\<close>

record PatchMaker =
  m_arm :: ICodeBin
  m_loadedOverlays :: "(nat \<times> OverlayBin) list"
  m_ovtEntries :: "OvtEntry list"
  m_bakOvtEntries :: "OvtEntry list"
  m_autogenDataInfoForDest :: "int \<rightharpoonup> AutogenDataInfo"
  files :: "FilePath \<rightharpoonup> u8 list"

text \<open>
  What the functions read from collaborators that are not under src/: the target's
  \<open>getArm9()\<close>, the constant \<open>OVERLAY_FLAG_COMP\<close>, the decompressor behind
  \<open>OverlayBin::load\<close>, whether a file can be opened for writing, and the sections of the
  linked ELF by index.
\<close>

record Env =
  getArm9 :: bool
  OVERLAY_FLAG_COMP :: u8
  decompress :: "u8 list \<Rightarrow> u8 list"
  writable :: "FilePath \<Rightarrow> bool"
  getSection :: "int \<Rightarrow> u8 list option"

section \<open>Loading and saving overlays (patchmaker.cpp, lines 653-724)\<close>

text \<open>
  Modelled from the spec: \<open>OverlayBin::load\<close> is not under src/. "On load, given
  (ram_addr, is_compressed, id), decompress if needed; retain bytes and RAM base." A file
  that is not there is a read error. The backup buffer of a fresh overlay is empty.
\<close>

definition OverlayBin_load ::
  "Env \<Rightarrow> (FilePath \<rightharpoonup> u8 list) \<Rightarrow> FilePath \<Rightarrow> u32 \<Rightarrow> bool \<Rightarrow> ncp_error + OverlayBin" where
  "OverlayBin_load env fs path ramAddr isCompressed =
     (case fs path of
        None \<Rightarrow> Inl (file_error path fe_read)
      | Some bs \<Rightarrow>
          Inr \<lparr>bin_ramAddress = ramAddr,
               bin_data = (if isCompressed then decompress env bs else bs),
               backupData = []\<rparr>)"

text \<open>\<^verbatim>\<open>m_loadedOverlays.emplace(ovID, ...)\<close>: an existing key keeps its entry.\<close>

definition emplace :: "nat \<Rightarrow> OverlayBin \<Rightarrow> (nat \<times> OverlayBin) list \<Rightarrow> (nat \<times> OverlayBin) list" where
  "emplace ovID overlay loaded =
     (if map_of loaded ovID = None then loaded @ [(ovID, overlay)] else loaded)"

text \<open>
  \<open>loadOverlayBin\<close>. Indexing either overlay table past its end is undefined in the
  source; it is the error \<open>access_out_of_range\<close> here.
\<close>

definition loadOverlayBin :: "Env \<Rightarrow> PatchMaker \<Rightarrow> nat \<Rightarrow> ncp_error + OverlayBin \<times> PatchMaker" where
  "loadOverlayBin env st ovID =
     (if length (m_ovtEntries st) \<le> ovID then Inl access_out_of_range
      else
       (let ovte = m_ovtEntries st ! ovID;
            isCompressed = (flag ovte AND OVERLAY_FLAG_COMP env \<noteq> 0);
            hasBackup = (files st (BakOverlay ovID) \<noteq> None);
            loaded =
              (if hasBackup
               then OverlayBin_load env (files st) (BakOverlay ovID) (ramAddress ovte) isCompressed
               else (case OverlayBin_load env (files st) (RomOverlay ovID) (ramAddress ovte) isCompressed of
                       Inl e \<Rightarrow> Inl e
                     | Inr overlay \<Rightarrow> Inr (overlay\<lparr>backupData := bin_data overlay\<rparr>)))
        in case loaded of
             Inl e \<Rightarrow> Inl e
           | Inr overlay \<Rightarrow>
              (let st1 = st\<lparr>m_ovtEntries := (m_ovtEntries st)[ovID := ovte\<lparr>flag := 0\<rparr>]\<rparr>
               in if m_bakOvtEntries st1 \<noteq> [] \<and> length (m_bakOvtEntries st1) \<le> ovID
                  then Inl access_out_of_range
                  else
                   (let st2 =
                          (if m_bakOvtEntries st1 \<noteq> []
                           then st1\<lparr>m_bakOvtEntries :=
                                  (m_bakOvtEntries st1)
                                    [ovID := (m_bakOvtEntries st1 ! ovID)\<lparr>flag := 0\<rparr>]\<rparr>
                           else st1)
                    in Inr (overlay,
                            st2\<lparr>m_loadedOverlays := emplace ovID overlay (m_loadedOverlays st2)\<rparr>)))))"

definition getOverlay :: "Env \<Rightarrow> PatchMaker \<Rightarrow> nat \<Rightarrow> ncp_error + OverlayBin \<times> PatchMaker" where
  "getOverlay env st ovID =
     (case map_of (m_loadedOverlays st) ovID of
        Some ov \<Rightarrow> Inr (ov, st)
      | None \<Rightarrow> loadOverlayBin env st ovID)"

text \<open>The lambda \<open>saveOvData\<close>: the file gets exactly the bytes it is handed.\<close>

definition saveOvData ::
  "Env \<Rightarrow> (FilePath \<rightharpoonup> u8 list) \<Rightarrow> u8 list \<Rightarrow> FilePath \<Rightarrow> ncp_error + (FilePath \<rightharpoonup> u8 list)" where
  "saveOvData env fs ovData ovFilePath =
     (if writable env ovFilePath then Inr (fs(ovFilePath \<mapsto> ovData))
      else Inl (file_error ovFilePath fe_write))"

fun saveOverlayBins_loop ::
  "Env \<Rightarrow> (nat \<times> OverlayBin) list \<Rightarrow> (FilePath \<rightharpoonup> u8 list) \<Rightarrow> ncp_error + (FilePath \<rightharpoonup> u8 list)" where
  "saveOverlayBins_loop env [] fs = Inr fs"
| "saveOverlayBins_loop env ((ovID, ov) # rest) fs =
     (case saveOvData env fs (bin_data ov) (RomOverlay ovID) of
        Inl e \<Rightarrow> Inl e
      | Inr fs1 \<Rightarrow>
          if backupData ov \<noteq> []
          then (case saveOvData env fs1 (bin_data ov) (BakOverlay ovID) of
                  Inl e \<Rightarrow> Inl e
                | Inr fs2 \<Rightarrow> saveOverlayBins_loop env rest fs2)
          else saveOverlayBins_loop env rest fs1)"

definition saveOverlayBins :: "Env \<Rightarrow> PatchMaker \<Rightarrow> ncp_error + PatchMaker" where
  "saveOverlayBins env st =
     (case saveOverlayBins_loop env (m_loadedOverlays st) (files st) of
        Inl e \<Rightarrow> Inl e
      | Inr fs \<Rightarrow> Inr (st\<lparr>files := fs\<rparr>))"

section \<open>Patch applier (patchmaker.cpp, lines 1262-1430)\<close>

text \<open>
  The expression that selects \<open>bin\<close>: the main ARM binary for destination \<open>-1\<close>,
  otherwise \<open>getOverlay\<close>, which may load the overlay. The binary is then addressed by
  its destination. A negative destination other than \<open>-1\<close> indexes the overlay table out
  of range.
\<close>

definition selectBin :: "Env \<Rightarrow> PatchMaker \<Rightarrow> int \<Rightarrow> ncp_error + PatchMaker" where
  "selectBin env st ov =
     (if ov = -1 then Inr st
      else if ov < 0 then Inl access_out_of_range
      else (case getOverlay env st (nat ov) of Inl e \<Rightarrow> Inl e | Inr (_, st') \<Rightarrow> Inr st'))"

definition bin_read_u32 :: "PatchMaker \<Rightarrow> int \<Rightarrow> u32 \<Rightarrow> ncp_error + u32" where
  "bin_read_u32 st ov addr =
     (if ov = -1 then read_u32 (m_arm st) addr
      else (case map_of (m_loadedOverlays st) (nat ov) of
              None \<Rightarrow> Inl access_out_of_range
            | Some bin \<Rightarrow> read_u32 bin addr))"

definition bin_writeBytes :: "PatchMaker \<Rightarrow> int \<Rightarrow> u32 \<Rightarrow> u8 list \<Rightarrow> ncp_error + PatchMaker" where
  "bin_writeBytes st ov addr bs =
     (if ov = -1
      then (case writeBytes (m_arm st) addr bs of
              Inl e \<Rightarrow> Inl e
            | Inr bin' \<Rightarrow> Inr (st\<lparr>m_arm := bin'\<rparr>))
      else (case map_of (m_loadedOverlays st) (nat ov) of
              None \<Rightarrow> Inl access_out_of_range
            | Some bin \<Rightarrow>
               (case writeBytes bin addr bs of
                  Inl e \<Rightarrow> Inl e
                | Inr bin' \<Rightarrow>
                    Inr (st\<lparr>m_loadedOverlays := AList.update (nat ov) bin' (m_loadedOverlays st)\<rparr>))))"

definition bin_write_u32 :: "PatchMaker \<Rightarrow> int \<Rightarrow> u32 \<Rightarrow> u32 \<Rightarrow> ncp_error + PatchMaker" where
  "bin_write_u32 st ov addr v = bin_writeBytes st ov addr (le_u32 v)"

text \<open>Appending a bridge to an autogen buffer and advancing its cursor.\<close>

definition appendBridge :: "AutogenDataInfo \<Rightarrow> u8 list \<Rightarrow> AutogenDataInfo" where
  "appendBridge info bridge =
     info\<lparr>data := data info @ bridge, curAddress := curAddress info + of_nat (length bridge)\<rparr>"

definition noAutogenInfo :: ncp_error where
  "noAutogenInfo = exception ''Unexpected p->srcAddressOv for m_autogenDataInfoForDest encountered.''"

text \<open>
  The Jump case (lines 1288-1342). In the two THUMB cases \<open>patchData\<close> is an array of three
  \<open>u16\<close>: the \<open>u32\<close> that \<open>makeThumbJumpOpCode\<close> returns is narrowed to \<open>u16\<close> when it is
  stored in \<open>patchData[1]\<close>, and 6 bytes are written.
\<close>

definition applyJump :: "PatchMaker \<Rightarrow> GenericPatchInfo \<Rightarrow> ncp_error + PatchMaker" where
  "applyJump st p =
     (if \<not> destThumb p \<and> \<not> srcThumb p
      then bin_write_u32 st (destAddressOv p) (destAddress p)
             (makeJumpOpCode armOpcodeB (destAddress p) (srcAddress p))
      else if \<not> destThumb p \<and> srcThumb p
      then (case m_autogenDataInfoForDest st (srcAddressOv p) of
              None \<Rightarrow> Inl noAutogenInfo
            | Some info \<Rightarrow>
               (let bridgeAddr = curAddress info
                in case bin_write_u32 st (destAddressOv p) (destAddress p)
                          (makeJumpOpCode armOpcodeB (destAddress p) bridgeAddr) of
                     Inl e \<Rightarrow> Inl e
                   | Inr st1 \<Rightarrow>
                       Inr (st1\<lparr>m_autogenDataInfoForDest :=
                              (m_autogenDataInfoForDest st1)(srcAddressOv p \<mapsto>
                                 appendBridge info
                                   (le_u32 0xE51FF004 @ le_u32 (srcAddress p OR 1)))\<rparr>)))
      else if destThumb p \<and> \<not> srcThumb p
      then bin_writeBytes st (destAddressOv p) (destAddress p)
             (le_u16 thumbOpCodePushLR
              @ le_u16 (ucast (makeThumbJumpOpCode thumbOpCodeBLX1 (destAddress p) (srcAddress p)))
              @ le_u16 thumbOpCodePopPC)
      else bin_writeBytes st (destAddressOv p) (destAddress p)
             (le_u16 thumbOpCodePushLR
              @ le_u16 (ucast (makeThumbJumpOpCode thumbOpCodeBL1 (destAddress p) (srcAddress p)))
              @ le_u16 thumbOpCodePopPC))"

text \<open>
  The Call case (lines 1343-1371). The message of its exception goes on with the symbol and
  the source file.
\<close>

definition applyCall :: "Env \<Rightarrow> PatchMaker \<Rightarrow> GenericPatchInfo \<Rightarrow> ncp_error + PatchMaker" where
  "applyCall env st p =
     (if destThumb p \<noteq> srcThumb p \<and> \<not> getArm9 env
      then Inl (exception ''Cannot create thumb-interworking veneer: BLX not supported on armv4.'')
      else if \<not> destThumb p \<and> \<not> srcThumb p
      then bin_write_u32 st (destAddressOv p) (destAddress p)
             (makeJumpOpCode armOpcodeBL (destAddress p) (srcAddress p))
      else if \<not> destThumb p \<and> srcThumb p
      then (let opcode = armOpCodeBLX OR push_bit 23 (drop_bit 1 (srcAddress p mod 4))
            in bin_write_u32 st (destAddressOv p) (destAddress p)
                 (makeJumpOpCode opcode (destAddress p) (srcAddress p)))
      else if destThumb p \<and> \<not> srcThumb p
      then bin_write_u32 st (destAddressOv p) (destAddress p)
             (makeThumbJumpOpCode thumbOpCodeBLX1 (destAddress p) (srcAddress p))
      else bin_write_u32 st (destAddressOv p) (destAddress p)
             (makeThumbJumpOpCode thumbOpCodeBL1 (destAddress p) (srcAddress p)))"

text \<open>The 20 bytes of a hook bridge placed at \<open>hookBridgeAddr\<close> (lines 1411-1415).\<close>

definition hookBridge :: "u32 \<Rightarrow> u32 \<Rightarrow> GenericPatchInfo \<Rightarrow> u8 list" where
  "hookBridge ogOpCode hookBridgeAddr p =
     le_u32 armHookPush
     @ le_u32 (makeJumpOpCode armOpcodeBL (hookBridgeAddr + 4) (srcAddress p))
     @ le_u32 armHookPop
     @ le_u32 (fixupOpCode ogOpCode (destAddress p) (hookBridgeAddr + 12))
     @ le_u32 (makeJumpOpCode armOpcodeB (hookBridgeAddr + 16) (destAddress p + 4))"

text \<open>The Hook case (lines 1372-1422).\<close>

definition applyHook :: "PatchMaker \<Rightarrow> GenericPatchInfo \<Rightarrow> ncp_error + PatchMaker" where
  "applyHook st p =
     (if destThumb p \<or> srcThumb p
      then Inl (fail_inject ''hook'' (srcThumb p) (destThumb p) (symbol p))
      else (case bin_read_u32 st (destAddressOv p) (destAddress p) of
              Inl e \<Rightarrow> Inl e
            | Inr ogOpCode \<Rightarrow>
               (case m_autogenDataInfoForDest st (srcAddressOv p) of
                  None \<Rightarrow> Inl noAutogenInfo
                | Some info \<Rightarrow>
                   (let hookBridgeAddr = curAddress info
                    in case bin_write_u32 st (destAddressOv p) (destAddress p)
                              (makeJumpOpCode armOpcodeB (destAddress p) hookBridgeAddr) of
                         Inl e \<Rightarrow> Inl e
                       | Inr st1 \<Rightarrow>
                           Inr (st1\<lparr>m_autogenDataInfoForDest :=
                                  (m_autogenDataInfoForDest st1)(srcAddressOv p \<mapsto>
                                     appendBridge info (hookBridge ogOpCode hookBridgeAddr p))\<rparr>)))))"

text \<open>
  \<open>over\<close>: \<open>sectionSize\<close> bytes of the ELF section are copied. A section that is not
  there, or is shorter than \<open>sectionSize\<close>, is read out of range.
\<close>

definition applyOver :: "Env \<Rightarrow> PatchMaker \<Rightarrow> GenericPatchInfo \<Rightarrow> ncp_error + PatchMaker" where
  "applyOver env st p =
     (case getSection env (sectionIdx p) of
        None \<Rightarrow> Inl access_out_of_range
      | Some sectionData \<Rightarrow>
          if sectionSize p < 0 \<or> int (length sectionData) < sectionSize p
          then Inl access_out_of_range
          else bin_writeBytes st (destAddressOv p) (destAddress p)
                 (take (nat (sectionSize p)) sectionData))"

text \<open>The body of the loop over \<open>m_patchInfo\<close>: select the binary, then switch on the kind.\<close>

definition applyPatch :: "Env \<Rightarrow> PatchMaker \<Rightarrow> GenericPatchInfo \<Rightarrow> ncp_error + PatchMaker" where
  "applyPatch env st p =
     (case selectBin env st (destAddressOv p) of
        Inl e \<Rightarrow> Inl e
      | Inr st1 \<Rightarrow>
          if patchType p = PatchType_Jump then applyJump st1 p
          else if patchType p = PatchType_Call then applyCall env st1 p
          else if patchType p = PatchType_Hook then applyHook st1 p
          else if patchType p = PatchType_Over then applyOver env st1 p
          else Inr st1)"

text \<open>
  The first loop of \<open>applyPatchesToRom\<close>. The installation of the new code that follows
  it reads the autogen buffers and writes none of them.
\<close>

fun applyPatches :: "Env \<Rightarrow> PatchMaker \<Rightarrow> GenericPatchInfo list \<Rightarrow> ncp_error + PatchMaker" where
  "applyPatches env st [] = Inr st"
| "applyPatches env st (p # ps) =
     (case applyPatch env st p of
        Inl e \<Rightarrow> Inl e
      | Inr st' \<Rightarrow> applyPatches env st' ps)"

section \<open>Quantities the claims speak of\<close>

text \<open>A Jump patch from ARM code to a THUMB function: the kind that needs an 8-byte bridge.\<close>

definition isArm2ThumbJump :: "GenericPatchInfo \<Rightarrow> bool" where
  "isArm2ThumbJump p = (patchType p = PatchType_Jump \<and> \<not> destThumb p \<and> srcThumb p)"

text \<open>The bridge bytes one patch needs: 20 for a hook, 8 for an ARM-to-THUMB jump.\<close>

definition bridgeBytesOf :: "GenericPatchInfo \<Rightarrow> nat" where
  "bridgeBytesOf p =
     (if patchType p = PatchType_Hook then 20 else if isArm2ThumbJump p then 8 else 0)"

text \<open>
  20 bytes per Hook patch plus 8 bytes per ARM-to-THUMB Jump patch among the patches whose
  job belongs to the region of destination \<open>d\<close>.
\<close>

definition regionBridgeBytes :: "int \<Rightarrow> GenericPatchInfo list \<Rightarrow> nat" where
  "regionBridgeBytes d ps =
     20 * length (filter (\<lambda>p. patchType p = PatchType_Hook \<and> destination (region (job p)) = d) ps)
     + 8 * length (filter (\<lambda>p. isArm2ThumbJump p \<and> destination (region (job p)) = d) ps)"

text \<open>The number of bytes in the autogen buffer of destination \<open>d\<close> (none: no buffer).\<close>

definition autogenBytes :: "PatchMaker \<Rightarrow> int \<Rightarrow> nat" where
  "autogenBytes st d =
     (case m_autogenDataInfoForDest st d of None \<Rightarrow> 0 | Some info \<Rightarrow> length (data info))"

text \<open>
  Between the planner and the applier, \<open>gatherInfoFromElf\<close> (lines 1066-1147) assigns
  \<open>srcAddress\<close>, \<open>sectionIdx\<close> and \<open>symbol\<close> of a patch record and no other field:
  \<open>resolved p p'\<close> says that \<open>p'\<close> is \<open>p\<close> up to these three.
\<close>

definition resolved :: "GenericPatchInfo \<Rightarrow> GenericPatchInfo \<Rightarrow> bool" where
  "resolved p p' =
     (p' = p\<lparr>srcAddress := srcAddress p', sectionIdx := sectionIdx p', symbol := symbol p'\<rparr>)"

section \<open>Concrete inputs\<close>

definition example_env :: Env where
  "example_env =
     \<lparr>getArm9 = True, OVERLAY_FLAG_COMP = 1, decompress = (\<lambda>bs. bs),
      writable = (\<lambda>_. True), getSection = (\<lambda>_. None)\<rparr>"

definition example_ovte :: OvtEntry where
  "example_ovte =
     \<lparr>ramAddress = 0x02100000, ramSize = 4, bssSize = 0, sinitStart = 0, sinitEnd = 0,
      fileID = 0, compressed = 0, flag = 2\<rparr>"

definition first_run_state :: PatchMaker where
  "first_run_state =
     \<lparr>m_arm = \<lparr>bin_ramAddress = 0x02000000, bin_data = [0, 0, 0, 0, 0, 0, 0, 0]\<rparr>,
      m_loadedOverlays = [],
      m_ovtEntries = [example_ovte],
      m_bakOvtEntries = [example_ovte],
      m_autogenDataInfoForDest = Map.empty,
      files = [RomOverlay 0 \<mapsto> [0x11, 0x22, 0x33, 0x44]]\<rparr>"

definition example_job :: SourceFileJob where
  "example_job =
     \<lparr>srcFilePath = ''patch.c'', objFilePath = ''patch.o'',
      region = \<lparr>destination = -1, mode = Append, region_address = 0, region_length = 0x10000\<rparr>\<rparr>"

definition example_jump :: GenericPatchInfo where
  "example_jump =
     \<lparr>srcAddress = 0x02020000, srcAddressOv = -1, destAddress = 0x02000000, destAddressOv = -1,
      patchType = PatchType_Jump, sectionIdx = -1, sectionSize = 0, isNcpSet = False,
      srcThumb = False, destThumb = False, symbol = ''ncp_jump_02000000'', job = example_job\<rparr>"





definition example_hook :: GenericPatchInfo where
  "example_hook =
     \<lparr>srcAddress = 0x02020000, srcAddressOv = -1, destAddress = 0x02000004, destAddressOv = -1,
      patchType = PatchType_Hook, sectionIdx = -1, sectionSize = 0, isNcpSet = False,
      srcThumb = False, destThumb = False, symbol = ''ncp_hook_02000004'', job = example_job\<rparr>"




definition example_autogen :: AutogenDataInfo where
  "example_autogen = \<lparr>address = 0x02030000, curAddress = 0x02030000, data = []\<rparr>"

definition hook_state :: PatchMaker where
  "hook_state =
     first_run_state\<lparr>
       m_arm := \<lparr>bin_ramAddress = 0x02000000,
                bin_data = [0, 0, 0, 0, 0x00, 0x00, 0xA0, 0xE1]\<rparr>,
       m_autogenDataInfoForDest := [-1 \<mapsto> example_autogen]\<rparr>"

definition example_patches :: "GenericPatchInfo list" where
  "example_patches = [example_hook, example_jump\<lparr>srcAddress := 0x02020001, srcThumb := True\<rparr>]"

text \<open>A second region, overlay 3, with a source file whose hook patches the main binary.\<close>

definition example_ov_job :: SourceFileJob where
  "example_ov_job =
     \<lparr>srcFilePath = ''ov3.c'', objFilePath = ''ov3.o'',
      region = \<lparr>destination = 3, mode = Append, region_address = 0, region_length = 0x1000\<rparr>\<rparr>"

definition example_ov_hook :: GenericPatchInfo where
  "example_ov_hook =
     \<lparr>srcAddress = 0x02200000, srcAddressOv = 3, destAddress = 0x02000008, destAddressOv = -1,
      patchType = PatchType_Hook, sectionIdx = -1, sectionSize = 0, isNcpSet = False,
      srcThumb = False, destThumb = False, symbol = ''ncp_hook_02000008'', job = example_ov_job\<rparr>"

definition example_regions :: "Region list" where
  "example_regions = [region example_ov_job, region example_job]"

definition two_region_state :: PatchMaker where
  "two_region_state =
     first_run_state\<lparr>
       m_arm := \<lparr>bin_ramAddress = 0x02000000,
                bin_data = [0, 0, 0, 0, 0x00, 0x00, 0xA0, 0xE1, 0x00, 0x00, 0xA0, 0xE1]\<rparr>,
       m_autogenDataInfoForDest :=
         [-1 \<mapsto> example_autogen,
          3 \<mapsto> \<lparr>address = 0x02200100, curAddress = 0x02200100, data = []\<rparr>]\<rparr>"

definition two_region_patches :: "GenericPatchInfo list" where
  "two_region_patches = example_ov_hook # example_patches"

section \<open>Properties of the ARM branch encoder\<close>

lemma sint_range_bits:
  fixes e :: u32
  assumes "- (2 ^ 25) \<le> sint e" "sint e < 2 ^ 25" "25 \<le> n" "n < 32"
  shows "bit e n = bit e 25"
proof -
  have "signed_take_bit 25 (sint e) = sint e"
    using assms by (simp add: signed_take_bit_int_eq_self)
  then have "bit (sint e) n = bit (signed_take_bit 25 (sint e)) n" by simp
  also have "\<dots> = bit (sint e) 25" using assms by (simp add: bit_signed_take_bit_iff min_def)
  finally show ?thesis using assms by (simp add: bit_sint_iff min_def)
qed

lemma low24_of_branch:
  "(0xEA000000 OR (m AND 0xFFFFFF)) AND (0xFFFFFF::u32) = take_bit 24 m"
proof -
  have m: "(0xFFFFFF::u32) = mask 24" by (simp add: mask_eq_exp_minus_1)
  have z: "(0xEA000000::u32) AND mask 24 = 0" by (simp add: mask_eq_exp_minus_1)
  show ?thesis unfolding m by (simp add: bit.conj_disj_distrib2 z take_bit_eq_mask)
qed

lemma aligned_diff:
  fixes F T :: u32
  assumes "F AND 3 = 0" "T AND 3 = 0"
  shows "take_bit 2 (T - F) = 0"
proof -
  have m: "(3::u32) = mask 2" by (simp add: mask_eq_exp_minus_1)
  from assms have z: "take_bit 2 F = 0" "take_bit 2 T = 0" by (simp_all add: m take_bit_eq_mask)
  have "push_bit 2 (drop_bit 2 F) = F" "push_bit 2 (drop_bit 2 T) = T"
    using bits_ident [of 2 F] bits_ident [of 2 T] z by simp_all
  then have "T - F = push_bit 2 (drop_bit 2 T - drop_bit 2 F)"
    by (simp add: push_bit_eq_mult algebra_simps)
  then show ?thesis by (simp add: take_bit_push_bit)
qed

lemma decode_encode:
  fixes d :: u32
  assumes al: "take_bit 2 d = 0"
    and lo: "- (2 ^ 25) \<le> sint (d - 8)" and hi: "sint (d - 8) < 2 ^ 25"
  shows "push_bit 2 (signed_take_bit 23 (take_bit 24 (drop_bit 2 d - 2)) + 2) = d"
proof -
  define m where "m = drop_bit 2 d - 2"
  define e where "e = d - 8"
  have d: "push_bit 2 (drop_bit 2 d) = d" using bits_ident [of 2 d] al by simp
  have d4: "4 * drop_bit 2 d = d" using d by (simp add: push_bit_eq_mult mult.commute)
  have e: "push_bit 2 m = e" unfolding m_def e_def
    by (simp add: push_bit_eq_mult algebra_simps d4)
  have "push_bit 2 (signed_take_bit 23 m) = e"
  proof (rule bit_word_eqI)
    fix n assume n: "n < LENGTH(32)"
    show "bit (push_bit 2 (signed_take_bit 23 m)) n = bit e n"
    proof (cases "n < 25")
      case True
      then show ?thesis unfolding e [symmetric]
        by (auto simp add: bit_push_bit_iff bit_signed_take_bit_iff min_def)
    next
      case False
      then have n25: "25 \<le> n" "n < 32" using n by simp_all
      have "bit e n = bit e 25"
        using sint_range_bits [OF lo [folded e_def] hi [folded e_def] n25] .
      also have "\<dots> = bit m 23" unfolding e [symmetric] by (simp add: bit_push_bit_iff)
      finally show ?thesis using n25
        by (auto simp add: bit_push_bit_iff bit_signed_take_bit_iff min_def)
    qed
  qed
  then have "push_bit 2 (signed_take_bit 23 m + 2) = e + 8"
    by (simp add: push_bit_eq_mult algebra_simps)
  then show ?thesis by (simp add: signed_take_bit_take_bit m_def e_def)
qed

text \<open>
  C8, as the specification states it, fails: with \<open>F = 0x04000000\<close> and
  \<open>T = 0x02000004\<close> both addresses are word-aligned and \<open>T - F\<close> is 4 bytes inside
  minus 32 MiB, yet the decoded target is \<open>0x06000004\<close>.
\<close>

theorem C8_decode_counterexample:
  "(0x04000000 :: u32) AND 3 = 0 \<and> (0x02000004 :: u32) AND 3 = 0
   \<and> - (2 ^ 25) < sint ((0x02000004 :: u32) - 0x04000000)
   \<and> sint ((0x02000004 :: u32) - 0x04000000) < 2 ^ 25
   \<and> decodeBranchTarget (makeJumpOpCode 0xEA000000 0x04000000 0x02000004) 0x04000000
       \<noteq> 0x02000004"
  by (simp add: makeJumpOpCode_def decodeBranchTarget_def)

text \<open>
  C8 (amended): for word-aligned \<open>F\<close> and \<open>T\<close> whose difference, less the 8 bytes of
  the ARM pipeline offset, fits a signed 26-bit quantity (that is,
  \<open>-32 MiB + 8 \<le> T - F \<le> 32 MiB + 4\<close>), decoding
  \<open>makeJumpOpCode 0xEA000000 F T\<close> recovers exactly \<open>T\<close>.
\<close>

theorem C8_decode_makeJumpOpCode:
  fixes F T :: u32
  assumes "F AND 3 = 0" and "T AND 3 = 0"
    and "- (2 ^ 25) \<le> sint (T - F - 8)" and "sint (T - F - 8) < 2 ^ 25"
  shows "decodeBranchTarget (makeJumpOpCode 0xEA000000 F T) F = T"
  using decode_encode [OF aligned_diff [OF assms(1,2)] assms(3,4)]
  by (simp add: decodeBranchTarget_def makeJumpOpCode_def low24_of_branch)

theorem C8_decode_makeJumpOpCode_witness:
  "decodeBranchTarget (makeJumpOpCode 0xEA000000 0x02000000 0x02020000) 0x02000000 = 0x02020000
   \<and> decodeBranchTarget (makeJumpOpCode 0xEA000000 0x04000000 0x02000008) 0x04000000 = 0x02000008"
proof -
  have a: "(0x02000000 :: u32) AND 3 = 0" "(0x02020000 :: u32) AND 3 = 0"
    "- (2 ^ 25) \<le> sint ((0x02020000 :: u32) - 0x02000000 - 8)"
    "sint ((0x02020000 :: u32) - 0x02000000 - 8) < 2 ^ 25"
    by simp_all
  have b: "(0x04000000 :: u32) AND 3 = 0" "(0x02000008 :: u32) AND 3 = 0"
    "- (2 ^ 25) \<le> sint ((0x02000008 :: u32) - 0x04000000 - 8)"
    "sint ((0x02000008 :: u32) - 0x04000000 - 8) < 2 ^ 25"
    by simp_all
  show ?thesis
    using C8_decode_makeJumpOpCode [OF a] C8_decode_makeJumpOpCode [OF b] by simp
qed

text \<open>
  C9: for every base opcode and every pair of addresses, \<open>makeJumpOpCode\<close> leaves the
  top 8 bits of the base opcode as they are: the offset is masked to 24 bits before it
  is OR'd in.
\<close>

theorem C9_makeJumpOpCode_top_byte:
  "drop_bit 24 (makeJumpOpCode opCode fromAddr toAddr) = drop_bit 24 opCode"
  unfolding makeJumpOpCode_def
  by (rule bit_word_eqI) (auto simp add: bit_simps)

section \<open>Saving overlays: what the backup file receives\<close>

lemmas example_defs =
  example_env_def example_ovte_def first_run_state_def example_job_def example_jump_def

lemmas overlay_io_defs =
  loadOverlayBin_def OverlayBin_load_def emplace_def saveOverlayBins_def saveOvData_def

lemmas bin_write_defs =
  bin_write_u32_def bin_writeBytes_def writeBytes_def in_range_def le_u32_def

lemma saveOverlayBins_loop_single:
  assumes "writable env (RomOverlay ovID)" and "writable env (BakOverlay ovID)"
    and "backupData ov \<noteq> []"
  shows "saveOverlayBins_loop env [(ovID, ov)] fs =
           Inr (fs(RomOverlay ovID \<mapsto> bin_data ov, BakOverlay ovID \<mapsto> bin_data ov))"
  using assms by (simp add: saveOvData_def)

text \<open>
  C1 (the code departs from the claim): on a first run overlay 0 is loaded from the ROM
  tree, so its backup buffer holds the pristine bytes \<open>11 22 33 44\<close>. One patched word
  later, \<open>saveOverlayBins\<close> writes the live buffer \<open>FE 7F 00 EA\<close> to the backup file, not
  the backup buffer; a second run, which loads the overlay from that backup, starts from
  the patched bytes.
\<close>

theorem C1_backup_file_gets_live_buffer:
  "(case loadOverlayBin example_env first_run_state 0 of
      Inl _ \<Rightarrow> False
    | Inr (ov, st1) \<Rightarrow>
        backupData ov = [0x11, 0x22, 0x33, 0x44] \<and>
        (case bin_write_u32 st1 0 0x02100000 0xEA007FFE of
           Inl _ \<Rightarrow> False
         | Inr st2 \<Rightarrow>
             (case saveOverlayBins example_env st2 of
                Inl _ \<Rightarrow> False
              | Inr st3 \<Rightarrow>
                  files st3 (BakOverlay 0) = Some [0xFE, 0x7F, 0x00, 0xEA] \<and>
                  files st3 (BakOverlay 0) \<noteq> Some (backupData ov) \<and>
                  (case loadOverlayBin example_env
                          (first_run_state\<lparr>m_bakOvtEntries := [], files := files st3\<rparr>) 0 of
                     Inl _ \<Rightarrow> False
                   | Inr (ov2, _) \<Rightarrow> bin_data ov2 = [0xFE, 0x7F, 0x00, 0xEA]))))"
  by (simp add: example_defs overlay_io_defs bin_write_defs)

section \<open>Jump patches\<close>

lemmas patch_type_defs =
  PatchType_Jump_def PatchType_Call_def PatchType_Hook_def PatchType_Over_def

lemma ucast_makeThumbJumpOpCode:
  "(ucast (makeThumbJumpOpCode opCode fromAddr toAddr) :: u16) =
     ucast ((ucast thumbOpCodeBL0 :: u32)
            OR drop_bit 11 ((drop_bit 1 (toAddr - fromAddr) - 2) AND 0x3FF800))"
  unfolding makeThumbJumpOpCode_def Let_def
  by (rule bit_word_eqI) (auto simp add: bit_simps)

text \<open>
  C6 (the code departs from the claim): \<open>makeThumbJumpOpCode\<close> returns the two halfwords
  of a THUMB \<open>BL\<close>/\<open>BLX\<close> pair in one \<open>u32\<close>, and the applier stores that \<open>u32\<close> in one
  \<open>u16\<close> slot. For a jump from \<open>0x02000000\<close> (THUMB) to \<open>0x02020000\<close> (ARM) the pair is
  \<open>F01F EFFE\<close>; the six bytes written are \<open>B500 F01F BD00\<close>, without the \<open>BLX\<close> halfword
  \<open>EFFE\<close>, and the THUMB-to-THUMB path writes the very same bytes.
\<close>

theorem C6_thumb_jump_drops_second_halfword:
  "makeThumbJumpOpCode thumbOpCodeBLX1 0x02000000 0x02020000 = 0xEFFEF01F \<and>
   map_sum id (bin_data \<circ> m_arm)
     (applyPatch example_env first_run_state (example_jump\<lparr>destThumb := True\<rparr>))
     = Inr [0x00, 0xB5, 0x1F, 0xF0, 0x00, 0xBD, 0, 0] \<and>
   applyPatch example_env first_run_state (example_jump\<lparr>destThumb := True, srcThumb := True\<rparr>)
     = applyPatch example_env first_run_state (example_jump\<lparr>destThumb := True\<rparr>)"
  by (simp add: example_defs applyPatch_def selectBin_def applyJump_def patch_type_defs
      bin_write_defs makeThumbJumpOpCode_def le_u16_def
      thumbOpCodeBLX1_def thumbOpCodeBL1_def thumbOpCodeBL0_def
      thumbOpCodePushLR_def thumbOpCodePopPC_def)

text \<open>
  C7, as the specification states it, fails: for the ARM-to-ARM jump from \<open>0x02000000\<close>
  to \<open>0x02020000\<close> the word written is \<open>0xEA007FFE\<close>, bytes \<open>FE 7F 00 EA\<close>, not
  \<open>00 7F FF EA\<close>.
\<close>

theorem C7_arm_jump_counterexample:
  "map_sum id (take 4 \<circ> bin_data \<circ> m_arm) (applyPatch example_env first_run_state example_jump)
     = Inr [0xFE, 0x7F, 0x00, 0xEA] \<and>
   [0xFE, 0x7F, 0x00, 0xEA] \<noteq> [0x00, 0x7F, 0xFF, 0xEA :: u8] \<and>
   makeJumpOpCode armOpcodeB 0x02000000 0x02020000 \<noteq> 0xEAFF7F00"
  by (simp add: example_defs applyPatch_def selectBin_def applyJump_def patch_type_defs
      bin_write_defs makeJumpOpCode_def armOpcodeB_def)

text \<open>
  C7 (amended): for an ARM-to-ARM Jump patch in the main ARM binary whose \<open>destAddress\<close>
  is \<open>0x02000000\<close> and whose linked \<open>srcAddress\<close> is \<open>0x02020000\<close>, the four bytes
  written at \<open>destAddress\<close> are \<open>FE 7F 00 EA\<close>, the little-endian word \<open>0xEA007FFE\<close>
  (\<open>((0x20000 >> 2) - 2) = 0x7FFE\<close>); nothing else in the state changes.
\<close>

theorem C7_arm_jump_word:
  assumes "patchType p = PatchType_Jump" and "\<not> destThumb p" and "\<not> srcThumb p"
    and "destAddressOv p = -1"
    and "destAddress p = 0x02000000" and "srcAddress p = 0x02020000"
    and "in_range (m_arm st) 0x02000000 4"
  shows "applyPatch env st p =
           Inr (st\<lparr>m_arm := (m_arm st)\<lparr>bin_data :=
                  take (unat (0x02000000 - bin_ramAddress (m_arm st))) (bin_data (m_arm st))
                  @ [0xFE, 0x7F, 0x00, 0xEA]
                  @ drop (unat (0x02000000 - bin_ramAddress (m_arm st)) + 4)
                      (bin_data (m_arm st))\<rparr>\<rparr>)"
proof -
  have op: "makeJumpOpCode armOpcodeB 0x02000000 0x02020000 = 0xEA007FFE"
    by (simp add: makeJumpOpCode_def armOpcodeB_def)
  have le: "le_u32 0xEA007FFE = [0xFE, 0x7F, 0x00, 0xEA]"
    by (simp add: le_u32_def)
  have s4: "\<And>n. Suc (Suc (Suc (Suc n))) = n + 4" by simp
  show ?thesis
    using assms
    by (simp add: applyPatch_def selectBin_def applyJump_def bin_write_u32_def bin_writeBytes_def
        writeBytes_def in_range_def op le Let_def s4)
qed

theorem C7_arm_jump_word_witness:
  "applyPatch example_env first_run_state example_jump =
     Inr (first_run_state\<lparr>m_arm := \<lparr>bin_ramAddress = 0x02000000,
            bin_data = [0xFE, 0x7F, 0x00, 0xEA, 0, 0, 0, 0]\<rparr>\<rparr>)"
proof -
  have "in_range (m_arm first_run_state) 0x02000000 4"
    by (simp add: in_range_def example_defs)
  from C7_arm_jump_word [of example_jump first_run_state example_env, OF _ _ _ _ _ _ this]
  show ?thesis by (simp add: example_defs PatchType_Jump_def)
qed

section \<open>The directive parser and the t prefix\<close>

lemmas patch_index_defs =
  PatchType_Jump_def PatchType_Call_def PatchType_Hook_def PatchType_Over_def
  PatchType_SetJump_def PatchType_SetCall_def PatchType_SetHook_def PatchType_RtRepl_def
  PatchType_TJump_def PatchType_TCall_def PatchType_THook_def
  PatchType_TSetJump_def PatchType_TSetCall_def PatchType_TSetHook_def

lemma low_bit_set: "(w OR 1) AND 1 \<noteq> (0 :: u32)"
proof -
  have "bit ((w OR 1) AND 1) 0" by (simp add: bit_simps)
  then show ?thesis by auto
qed

lemma set_then_clear_low_bit: "(w OR 1) AND - 2 = w AND - (2 :: u32)"
proof -
  have "(w OR 1) AND NOT 1 = w AND NOT (1 :: u32)"
    by (rule bit_word_eqI) (auto simp add: bit_simps)
  then show ?thesis by simp
qed

lemma index_t_names:
  "Util_indexOf ''tjump'' s_patchTypeNames = Some PatchType_TJump"
  "Util_indexOf ''tcall'' s_patchTypeNames = Some PatchType_TCall"
  "Util_indexOf ''thook'' s_patchTypeNames = Some PatchType_THook"
  "Util_indexOf ''tsetjump'' s_patchTypeNames = Some PatchType_TSetJump"
  "Util_indexOf ''tsetcall'' s_patchTypeNames = Some PatchType_TSetCall"
  "Util_indexOf ''tsethook'' s_patchTypeNames = Some PatchType_TSetHook"
  by (simp_all add: Util_indexOf_def s_patchTypeNames_def patch_index_defs)

lemma first_index_hit: "c \<notin> set xs \<Longrightarrow> first_index c (xs @ c # ys) = Some (length xs)"
  by (induction xs) auto

lemma first_index_miss: "c \<notin> set xs \<Longrightarrow> first_index c xs = None"
  by (induction xs) auto

text \<open>
  The parser on a label \<open><kind>_<address>\<close> and on a label \<open><kind>_<address>_ov<overlay>\<close>,
  once the kind has been looked up: \<open>nm\<close> is the kind's name, \<open>addrText\<close> the address field and
  \<open>ovText\<close> the overlay field.
\<close>

lemma parseAddressAndBuild_plain:
  assumes "CHR ''_'' \<notin> set addrText" and "addrToInt addrText = Some a"
  shows "parseAddressAndBuild addrToInt srcFileJob symbolName symbolAddr sIdx sSize
           (nm @ CHR ''_'' # addrText) (length nm) (t, f, s) =
         Patch \<lparr>srcAddress = 0,
                srcAddressOv = (if t = PatchType_Over then -1 else destination (region srcFileJob)),
                destAddress = (if f then a OR 1 else a) AND NOT 1,
                destAddressOv = -1,
                patchType = t, sectionIdx = sIdx, sectionSize = sSize, isNcpSet = s,
                srcThumb = (symbolAddr AND 1 \<noteq> 0),
                destThumb = ((if f then a OR 1 else a) AND 1 \<noteq> 0),
                symbol = symbolName, job = srcFileJob\<rparr>"
proof -
  have found: "sv_find (nm @ CHR ''_'' # addrText) CHR ''_'' (length nm + 1) = None"
    using assms(1) by (simp add: sv_find_def first_index_miss)
  have field: "substr (nm @ CHR ''_'' # addrText) (length nm + 1)
                 (length (nm @ CHR ''_'' # addrText) - (length nm + 1)) = addrText"
    by (simp add: substr_def)
  show ?thesis
    unfolding parseAddressAndBuild_def Let_def prod.case found
    by (simp only: option.case field assms(2)) simp
qed

lemma parseAddressAndBuild_overlay:
  assumes "CHR ''_'' \<notin> set addrText" and "addrToInt addrText = Some a"
    and "addrToInt ovText = Some w"
  shows "parseAddressAndBuild addrToInt srcFileJob symbolName symbolAddr sIdx sSize
           (nm @ CHR ''_'' # addrText @ ''_ov'' @ ovText) (length nm) (t, f, s) =
         Patch \<lparr>srcAddress = 0,
                srcAddressOv = (if t = PatchType_Over then sint w else destination (region srcFileJob)),
                destAddress = (if f then a OR 1 else a) AND NOT 1,
                destAddressOv = sint w,
                patchType = t, sectionIdx = sIdx, sectionSize = sSize, isNcpSet = s,
                srcThumb = (symbolAddr AND 1 \<noteq> 0),
                destThumb = ((if f then a OR 1 else a) AND 1 \<noteq> 0),
                symbol = symbolName, job = srcFileJob\<rparr>"
proof -
  let ?label = "nm @ CHR ''_'' # addrText @ ''_ov'' @ ovText"
  let ?e = "length addrText + (length nm + 1)"
  have "first_index CHR ''_'' (addrText @ CHR ''_'' # (CHR ''o'' # CHR ''v'' # ovText))
          = Some (length addrText)"
    using assms(1) by (rule first_index_hit)
  then have found: "sv_find ?label CHR ''_'' (length nm + 1) = Some ?e"
    by (simp add: sv_find_def)
  have field: "substr ?label (length nm + 1) (?e - (length nm + 1)) = addrText"
    by (simp add: substr_def)
  have ov: "parseOverlay addrToInt ?label ?e = Inr (sint w)"
    by (simp add: parseOverlay_def substr_def starts_with_def assms(3))
  show ?thesis
    unfolding parseAddressAndBuild_def Let_def prod.case found
    by (simp only: option.case field assms(2) ov) simp
qed

lemma parseSymbol_label:
  assumes "CHR ''_'' \<notin> set nm" and "Util_indexOf nm s_patchTypeNames = Some k"
    and "k \<noteq> PatchType_Over" and "k \<noteq> PatchType_RtRepl"
    and "symbolName = (if sIdx \<noteq> -1 then ''.ncp_'' else ''ncp_'') @ nm @ CHR ''_'' # rest"
  shows "parseSymbol addrToInt srcFileJob symbolName symbolAddr sIdx sSize =
         parseAddressAndBuild addrToInt srcFileJob symbolName symbolAddr sIdx sSize
           (nm @ CHR ''_'' # rest) (length nm) (stripPrefixes k)"
proof -
  have label: "drop (if sIdx \<noteq> -1 then 5 else 4) symbolName = nm @ CHR ''_'' # rest"
    by (simp add: assms(5))
  have found: "sv_find (nm @ CHR ''_'' # rest) CHR ''_'' 0 = Some (length nm)"
    using assms(1) by (simp add: sv_find_def first_index_hit)
  have kind: "substr (nm @ CHR ''_'' # rest) 0 (length nm) = nm"
    by (simp add: substr_def)
  show ?thesis
    unfolding parseSymbol_def Let_def label found option.case kind assms(2)
    using assms(3,4) by simp
qed

lemma t_kind_cases:
  assumes "name \<in> set [''tjump'', ''tcall'', ''thook'', ''tsetjump'', ''tsetcall'', ''tsethook'']"
  obtains k where "Util_indexOf name s_patchTypeNames = Some k"
    and "PatchType_TJump \<le> k" and "k \<le> PatchType_TSetHook"
    and "(PatchType_TSetJump \<le> k) = (name \<in> set [''tsetjump'', ''tsetcall'', ''tsethook''])"
    and "(if k < PatchType_TSetJump then k - PatchType_TJump else k - PatchType_TSetJump) =
             (if name \<in> set [''tjump'', ''tsetjump''] then PatchType_Jump
              else if name \<in> set [''tcall'', ''tsetcall''] then PatchType_Call
              else PatchType_Hook)"
    and "CHR ''_'' \<notin> set name"
proof -
  from assms have "name = ''tjump'' \<or> name = ''tcall'' \<or> name = ''thook''
    \<or> name = ''tsetjump'' \<or> name = ''tsetcall'' \<or> name = ''tsethook''"
    by (simp only: list.set insert_iff empty_iff simp_thms)
  then show thesis
  proof (elim disjE)
    assume n: "name = ''tjump''"
    show thesis
      by (rule that [of PatchType_TJump]) (simp_all add: n index_t_names patch_index_defs)
  next
    assume n: "name = ''tcall''"
    show thesis
      by (rule that [of PatchType_TCall]) (simp_all add: n index_t_names patch_index_defs)
  next
    assume n: "name = ''thook''"
    show thesis
      by (rule that [of PatchType_THook]) (simp_all add: n index_t_names patch_index_defs)
  next
    assume n: "name = ''tsetjump''"
    show thesis
      by (rule that [of PatchType_TSetJump]) (simp_all add: n index_t_names patch_index_defs)
  next
    assume n: "name = ''tsetcall''"
    show thesis
      by (rule that [of PatchType_TSetCall]) (simp_all add: n index_t_names patch_index_defs)
  next
    assume n: "name = ''tsethook''"
    show thesis
      by (rule that [of PatchType_TSetHook]) (simp_all add: n index_t_names patch_index_defs)
  qed
qed

lemma stripPrefixes_t:
  assumes "PatchType_TJump \<le> k" and "k \<le> PatchType_TSetHook"
  shows "stripPrefixes k =
      (if k < PatchType_TSetJump then k - PatchType_TJump else k - PatchType_TSetJump,
       True, PatchType_TSetJump \<le> k)"
    and "k \<noteq> PatchType_Over" and "k \<noteq> PatchType_RtRepl"
  using assms by (auto simp add: stripPrefixes_def Let_def patch_index_defs)

text \<open>
  C5, as the specification states it, fails: the label \<open>ncp_tjump_02000000\<close> with an
  even symbol value yields a record whose \<open>destThumb\<close> is set, whose \<open>srcThumb\<close> is
  clear and whose \<open>destAddress\<close> has its low bit clear.
\<close>

theorem C5_counterexample:
  "parseSymbol addrToInt_hex example_job ''ncp_tjump_02000000'' 0x02020000 (-1) 0 =
     Patch \<lparr>srcAddress = 0, srcAddressOv = -1, destAddress = 0x02000000, destAddressOv = -1,
            patchType = PatchType_Jump, sectionIdx = -1, sectionSize = 0, isNcpSet = False,
            srcThumb = False, destThumb = True,
            symbol = ''ncp_tjump_02000000'', job = example_job\<rparr>"
  by (simp add: parseSymbol_def parseAddressAndBuild_def stripPrefixes_def
      sv_find_def substr_def Util_indexOf_def s_patchTypeNames_def
      patch_index_defs addrToInt_hex_def hexDigit_def example_job_def Let_def)

text \<open>
  C5, amended: take a directive \<open><kind>_<address>\<close> or \<open><kind>_<address>_ov<overlay>\<close>, after
  the stem \<open>ncp_\<close> of a label or \<open>.ncp_\<close> of a section, whose kind carries the \<open>t\<close> prefix and
  whose address and overlay fields \<open>addrToInt\<close> reads as \<open>a\<close> and \<open>w\<close>. The parser accepts
  it: it strips the prefix to the underlying kind (and records \<open>isNcpSet\<close> for the \<open>tset\<close>
  kinds), sets the low bit of the parsed address (\<open>destAddress |= 1\<close>), and builds the record
  with \<open>destThumb\<close> on, with \<open>destAddress\<close> holding the parsed address \<open>a\<close> with its low bit
  cleared, and with \<open>destAddressOv\<close> the parsed overlay, or \<open>-1\<close> without an overlay field.
  Nothing that runs after the parser writes one of these fields.
\<close>

theorem C5_t_prefix:
  assumes t: "name \<in> set [''tjump'', ''tcall'', ''thook'', ''tsetjump'', ''tsetcall'', ''tsethook'']"
    and sym: "symbolName =
                (if sIdx \<noteq> -1 then ''.ncp_'' else ''ncp_'') @ name @ ''_'' @ addrText @ ovSuffix"
    and addrText: "CHR ''_'' \<notin> set addrText"
    and addr: "addrToInt addrText = Some a"
    and ov: "ovSuffix = [] \<and> ov = -1
             \<or> (\<exists>ovText w. ovSuffix = ''_ov'' @ ovText \<and> addrToInt ovText = Some w \<and> ov = sint w)"
  shows "\<exists>p. parseSymbol addrToInt srcFileJob symbolName symbolAddr sIdx sSize = Patch p
           \<and> patchType p =
               (if name \<in> set [''tjump'', ''tsetjump''] then PatchType_Jump
                else if name \<in> set [''tcall'', ''tsetcall''] then PatchType_Call
                else PatchType_Hook)
           \<and> isNcpSet p = (name \<in> set [''tsetjump'', ''tsetcall'', ''tsethook''])
           \<and> destThumb p
           \<and> destAddress p = a AND NOT 1
           \<and> destAddressOv p = ov"
proof -
  from t obtain k where idx: "Util_indexOf name s_patchTypeNames = Some k"
    and k: "PatchType_TJump \<le> k" "k \<le> PatchType_TSetHook"
    and set: "(PatchType_TSetJump \<le> k) = (name \<in> set [''tsetjump'', ''tsetcall'', ''tsethook''])"
    and kind: "(if k < PatchType_TSetJump then k - PatchType_TJump else k - PatchType_TSetJump) =
             (if name \<in> set [''tjump'', ''tsetjump''] then PatchType_Jump
              else if name \<in> set [''tcall'', ''tsetcall''] then PatchType_Call
              else PatchType_Hook)"
    and plain: "CHR ''_'' \<notin> set name"
    by (rule t_kind_cases)
  note strip = stripPrefixes_t [OF k]
  from sym have sym': "symbolName =
      (if sIdx \<noteq> -1 then ''.ncp_'' else ''ncp_'') @ name @ CHR ''_'' # (addrText @ ovSuffix)"
    by simp
  have step: "parseSymbol addrToInt srcFileJob symbolName symbolAddr sIdx sSize =
      parseAddressAndBuild addrToInt srcFileJob symbolName symbolAddr sIdx sSize
        (name @ CHR ''_'' # (addrText @ ovSuffix)) (length name)
        (if k < PatchType_TSetJump then k - PatchType_TJump else k - PatchType_TSetJump,
         True, PatchType_TSetJump \<le> k)"
    using parseSymbol_label [OF plain idx strip(2) strip(3) sym'] by (simp only: strip(1))
  from ov show ?thesis
  proof
    assume "ovSuffix = [] \<and> ov = -1"
    then have none: "ovSuffix = []" and o: "ov = -1" by simp_all
    show ?thesis
      unfolding step none append_Nil2 parseAddressAndBuild_plain [where addrToInt = addrToInt, OF addrText addr]
      by (simp add: set kind o low_bit_set set_then_clear_low_bit)
  next
    assume "\<exists>ovText w. ovSuffix = ''_ov'' @ ovText \<and> addrToInt ovText = Some w \<and> ov = sint w"
    then obtain ovText w where some: "ovSuffix = ''_ov'' @ ovText"
      and w: "addrToInt ovText = Some w" and o: "ov = sint w"
      by blast
    show ?thesis
      unfolding step some parseAddressAndBuild_overlay [where addrToInt = addrToInt, OF addrText addr w]
      by (simp add: set kind o low_bit_set set_then_clear_low_bit)
  qed
qed

theorem C5_t_prefix_witness:
  "\<exists>p. parseSymbol addrToInt_hex example_job ''.ncp_tsethook_02000000_ov3'' 0 5 16 = Patch p
     \<and> patchType p = PatchType_Hook \<and> isNcpSet p \<and> destThumb p
     \<and> destAddress p = 0x02000000 \<and> destAddressOv p = 3"
proof -
  have t: "''tsethook'' \<in> set [''tjump'', ''tcall'', ''thook'', ''tsetjump'', ''tsetcall'', ''tsethook'']"
    by simp
  have sym: "''.ncp_tsethook_02000000_ov3'' =
      (if (5 :: int) \<noteq> -1 then ''.ncp_'' else ''ncp_'') @ ''tsethook'' @ ''_'' @ ''02000000'' @ ''_ov3''"
    by simp
  have addrText: "CHR ''_'' \<notin> set ''02000000''" by simp
  have addr: "addrToInt_hex ''02000000'' = Some 0x02000000"
    by (simp add: addrToInt_hex_def hexDigit_def)
  have w: "addrToInt_hex ''3'' = Some 3"
    by (simp add: addrToInt_hex_def hexDigit_def)
  have ov: "''_ov3'' = [] \<and> (3 :: int) = -1
            \<or> (\<exists>ovText w. ''_ov3'' = ''_ov'' @ ovText \<and> addrToInt_hex ovText = Some w
                  \<and> (3 :: int) = sint w)"
  proof -
    have "''_ov3'' = ''_ov'' @ ''3'' \<and> addrToInt_hex ''3'' = Some 3 \<and> (3 :: int) = sint (3 :: u32)"
      using w by simp
    then show ?thesis by blast
  qed
  have kind: "(if ''tsethook'' \<in> set [''tjump'', ''tsetjump''] then PatchType_Jump
               else if ''tsethook'' \<in> set [''tcall'', ''tsetcall''] then PatchType_Call
               else PatchType_Hook) = PatchType_Hook"
    by simp
  have low: "(0x02000000 :: u32) AND NOT 1 = 0x02000000" by simp
  from C5_t_prefix [OF t sym addrText addr ov, of example_job 0 16]
  show ?thesis unfolding kind low by simp
qed

section \<open>Loading an overlay clears its flags\<close>

lemma loadOverlayBin_tables:
  assumes "loadOverlayBin env st ovID = Inr (ov, st')"
  shows "ovID < length (m_ovtEntries st)"
    and "m_ovtEntries st' = (m_ovtEntries st)[ovID := (m_ovtEntries st ! ovID)\<lparr>flag := 0\<rparr>]"
    and "m_bakOvtEntries st \<noteq> [] \<Longrightarrow> ovID < length (m_bakOvtEntries st)"
    and "m_bakOvtEntries st' =
           (if m_bakOvtEntries st \<noteq> []
            then (m_bakOvtEntries st)[ovID := (m_bakOvtEntries st ! ovID)\<lparr>flag := 0\<rparr>]
            else [])"
  using assms
  by (auto simp add: loadOverlayBin_def Let_def split: if_splits sum.splits)

text \<open>
  C10: whenever \<open>loadOverlayBin\<close> returns, on the backup path as on the ROM path, the
  whole \<open>flag\<close> field of the overlay-table entry is zero, and when the in-memory backup
  copy of the table is not empty its entry has a zero \<open>flag\<close> too.
\<close>

theorem C10_loadOverlayBin_clears_flag:
  assumes "loadOverlayBin env st ovID = Inr (ov, st')"
  shows "flag (m_ovtEntries st' ! ovID) = 0
         \<and> (m_bakOvtEntries st' \<noteq> [] \<longrightarrow> flag (m_bakOvtEntries st' ! ovID) = 0)
         \<and> (m_bakOvtEntries st' \<noteq> []) = (m_bakOvtEntries st \<noteq> [])"
  using loadOverlayBin_tables [OF assms] by auto

theorem C10_loadOverlayBin_clears_flag_witness:
  "(case loadOverlayBin example_env first_run_state 0 of
      Inl _ \<Rightarrow> False
    | Inr (ov, st') \<Rightarrow>
        backupData ov = [0x11, 0x22, 0x33, 0x44]
        \<and> flag (m_ovtEntries first_run_state ! 0) = 2
        \<and> flag (m_ovtEntries st' ! 0) = 0 \<and> flag (m_bakOvtEntries st' ! 0) = 0)
   \<and> (case loadOverlayBin example_env
              (first_run_state\<lparr>m_bakOvtEntries := [],
                 files := [BakOverlay 0 \<mapsto> [0x11, 0x22, 0x33, 0x44]]\<rparr>) 0 of
      Inl _ \<Rightarrow> False
    | Inr (ov, st') \<Rightarrow>
        backupData ov = [] \<and> flag (m_ovtEntries st' ! 0) = 0 \<and> m_bakOvtEntries st' = [])"
proof -
  obtain ov1 st1 where 1: "loadOverlayBin example_env first_run_state 0 = Inr (ov1, st1)"
    by (simp add: loadOverlayBin_def OverlayBin_load_def example_env_def example_ovte_def
        first_run_state_def)
  obtain ov2 st2 where 2: "loadOverlayBin example_env
              (first_run_state\<lparr>m_bakOvtEntries := [],
                 files := [BakOverlay 0 \<mapsto> [0x11, 0x22, 0x33, 0x44]]\<rparr>) 0 = Inr (ov2, st2)"
    by (simp add: loadOverlayBin_def OverlayBin_load_def example_env_def example_ovte_def
        first_run_state_def)
  have a: "backupData ov1 = [0x11, 0x22, 0x33, 0x44]" "flag (m_ovtEntries first_run_state ! 0) = 2"
    "m_bakOvtEntries st1 \<noteq> []"
    using 1
    by (auto simp add: loadOverlayBin_def OverlayBin_load_def example_env_def example_ovte_def
        first_run_state_def Let_def)
  have b: "backupData ov2 = []" "m_bakOvtEntries st2 = []"
    using 2
    by (auto simp add: loadOverlayBin_def OverlayBin_load_def example_env_def example_ovte_def
        first_run_state_def Let_def)
  from C10_loadOverlayBin_clears_flag [OF 1] C10_loadOverlayBin_clears_flag [OF 2] a b
  show ?thesis by (simp add: 1 2)
qed

section \<open>The overlap check\<close>
















section \<open>The applier and the autogen buffers\<close>

lemmas apply_eval =
  applyPatch_def selectBin_def applyHook_def applyJump_def
  bin_read_u32_def read_u32_def bin_write_u32_def bin_writeBytes_def writeBytes_def in_range_def
  le_u32_def hookBridge_def appendBridge_def makeJumpOpCode_def fixupOpCode_def
  armOpcodeB_def armOpcodeBL_def armHookPush_def armHookPop_def
  PatchType_Jump_def PatchType_Call_def PatchType_Hook_def PatchType_Over_def

lemmas example_eval =
  example_env_def example_ovte_def first_run_state_def example_job_def example_jump_def
  example_hook_def example_autogen_def hook_state_def example_patches_def

lemmas two_region_eval =
  example_ov_job_def example_ov_hook_def example_regions_def two_region_state_def
  two_region_patches_def

lemma regionBridgeBytes_Cons:
  "regionBridgeBytes d (p # ps) =
     (if destination (region (job p)) = d
      then (if patchType p = PatchType_Hook then 20 else if isArm2ThumbJump p then 8 else 0)
      else 0) + regionBridgeBytes d ps"
  by (auto simp add: regionBridgeBytes_def isArm2ThumbJump_def PatchType_Hook_def PatchType_Jump_def)

lemma regionBridgeBytes_Nil: "regionBridgeBytes d [] = 0"
  by (simp add: regionBridgeBytes_def)

lemma updateRegionEntry_pair:
  assumes "patchType p \<noteq> PatchType_Over"
  shows "dest (updateRegionEntry p r) = dest r"
    and "autogenDataSize (updateRegionEntry p r) =
           autogenDataSize r + regionBridgeBytes (dest r) [p]"
  using assms
  by (auto simp add: updateRegionEntry_def regionBridgeBytes_Cons regionBridgeBytes_Nil
      isArm2ThumbJump_def Let_def SizeOfHookBridge_def SizeOfArm2ThumbJumpBridge_def
      PatchType_Hook_def PatchType_Jump_def)

lemma regionBridgeBytes_Over:
  "patchType p = PatchType_Over \<Longrightarrow> regionBridgeBytes d [p] = 0"
  by (simp add: regionBridgeBytes_Cons regionBridgeBytes_Nil isArm2ThumbJump_def
      PatchType_Over_def PatchType_Hook_def PatchType_Jump_def)

lemma planPatch_pairs:
  "map (\<lambda>r. (dest r, autogenDataSize r)) (planPatch rs p) =
   map (\<lambda>r. (dest r, autogenDataSize r + regionBridgeBytes (dest r) [p])) rs"
  by (cases "patchType p = PatchType_Over")
     (simp_all add: planPatch_def updateRegionEntry_pair regionBridgeBytes_Over)

lemma regionBridgeBytes_append1:
  "regionBridgeBytes d (p # ps) = regionBridgeBytes d [p] + regionBridgeBytes d ps"
  by (simp add: regionBridgeBytes_Cons regionBridgeBytes_Nil)

lemma foldl_planPatch_pairs:
  "map (\<lambda>r. (dest r, autogenDataSize r)) (foldl planPatch rs ps) =
   map (\<lambda>r. (dest r, autogenDataSize r + regionBridgeBytes (dest r) ps)) rs"
proof (induction ps arbitrary: rs)
  case Nil
  then show ?case by (simp add: regionBridgeBytes_Nil)
next
  case (Cons p ps)
  have "map (\<lambda>r. (dest r, autogenDataSize r)) (foldl planPatch rs (p # ps)) =
        map (\<lambda>r. (dest r, autogenDataSize r + regionBridgeBytes (dest r) ps)) (planPatch rs p)"
    by (simp add: Cons.IH)
  also have "\<dots> = map ((\<lambda>(d, n). (d, n + regionBridgeBytes d ps))
                       \<circ> (\<lambda>r. (dest r, autogenDataSize r))) (planPatch rs p)"
    by (simp add: comp_def)
  also have "\<dots> = map (\<lambda>(d, n). (d, n + regionBridgeBytes d ps))
                     (map (\<lambda>r. (dest r, autogenDataSize r + regionBridgeBytes (dest r) [p])) rs)"
    by (simp only: map_map [symmetric] planPatch_pairs)
  also have "\<dots> = map (\<lambda>r. (dest r, autogenDataSize r + regionBridgeBytes (dest r) (p # ps))) rs"
    by (simp add: comp_def regionBridgeBytes_append1 [of _ p ps] add.assoc)
  finally show ?case .
qed

lemma createLinkerScript_regions_pairs:
  "map (\<lambda>r. (dest r, autogenDataSize r)) (createLinkerScript_regions orderedRegions ps) =
   map (\<lambda>r. (destination r, regionBridgeBytes (destination r) ps)) orderedRegions"
  by (simp add: createLinkerScript_regions_def foldl_planPatch_pairs newRegionEntry_def comp_def)

lemma createLinkerScript_regions_dest:
  "map dest (createLinkerScript_regions orderedRegions ps) = map destination orderedRegions"
proof -
  have "map fst (map (\<lambda>r. (dest r, autogenDataSize r))
                   (createLinkerScript_regions orderedRegions ps)) =
        map fst (map (\<lambda>r. (destination r, regionBridgeBytes (destination r) ps)) orderedRegions)"
    by (simp only: createLinkerScript_regions_pairs)
  then show ?thesis by (simp add: comp_def)
qed

lemma createLinkerScript_regions_nth:
  assumes "k < length orderedRegions"
  shows "autogenDataSize (createLinkerScript_regions orderedRegions ps ! k)
           = regionBridgeBytes (destination (orderedRegions ! k)) ps"
proof -
  have len: "length (createLinkerScript_regions orderedRegions ps) = length orderedRegions"
    using arg_cong [OF createLinkerScript_regions_dest, of length orderedRegions ps] by simp
  have "map (\<lambda>r. (dest r, autogenDataSize r)) (createLinkerScript_regions orderedRegions ps) ! k =
        map (\<lambda>r. (destination r, regionBridgeBytes (destination r) ps)) orderedRegions ! k"
    by (simp only: createLinkerScript_regions_pairs)
  with assms len show ?thesis by simp
qed

lemma loadOverlayBin_autogen:
  "loadOverlayBin env st ovID = Inr (ov, st')
     \<Longrightarrow> m_autogenDataInfoForDest st' = m_autogenDataInfoForDest st"
  by (auto simp add: loadOverlayBin_def Let_def split: if_splits sum.splits)

lemma selectBin_autogen:
  "selectBin env st ov = Inr st' \<Longrightarrow> m_autogenDataInfoForDest st' = m_autogenDataInfoForDest st"
  by (auto simp add: selectBin_def getOverlay_def loadOverlayBin_autogen
      split: if_splits sum.splits option.splits)

lemma bin_writeBytes_autogen:
  "bin_writeBytes st ov addr bs = Inr st'
     \<Longrightarrow> m_autogenDataInfoForDest st' = m_autogenDataInfoForDest st"
  by (auto simp add: bin_writeBytes_def split: if_splits sum.splits option.splits)

lemma autogenBytes_cong:
  "m_autogenDataInfoForDest st' = m_autogenDataInfoForDest st
     \<Longrightarrow> autogenBytes st' d = autogenBytes st d"
  by (simp add: autogenBytes_def)

lemma autogenBytes_append:
  assumes "m_autogenDataInfoForDest st k = Some info"
    and "m_autogenDataInfoForDest st1 = m_autogenDataInfoForDest st"
  shows "autogenBytes (st1\<lparr>m_autogenDataInfoForDest :=
            (m_autogenDataInfoForDest st1)(k \<mapsto> appendBridge info bridge)\<rparr>) d
         = autogenBytes st d + (if k = d then length bridge else 0)"
proof (cases "k = d")
  case True
  with assms show ?thesis by (simp add: autogenBytes_def appendBridge_def)
next
  case False
  with assms show ?thesis by (simp add: autogenBytes_def)
qed

lemma bin_write_u32_autogen:
  "bin_write_u32 st ov addr v = Inr st'
     \<Longrightarrow> m_autogenDataInfoForDest st' = m_autogenDataInfoForDest st"
  unfolding bin_write_u32_def by (rule bin_writeBytes_autogen)

lemma applyJump_arm2thumb:
  assumes "\<not> destThumb p" and "srcThumb p"
  shows "applyJump st p =
     (case m_autogenDataInfoForDest st (srcAddressOv p) of
        None \<Rightarrow> Inl noAutogenInfo
      | Some info \<Rightarrow>
         (case bin_write_u32 st (destAddressOv p) (destAddress p)
                 (makeJumpOpCode armOpcodeB (destAddress p) (curAddress info)) of
            Inl e \<Rightarrow> Inl e
          | Inr st1 \<Rightarrow>
              Inr (st1\<lparr>m_autogenDataInfoForDest :=
                     (m_autogenDataInfoForDest st1)(srcAddressOv p \<mapsto>
                        appendBridge info (le_u32 0xE51FF004 @ le_u32 (srcAddress p OR 1)))\<rparr>)))"
  unfolding applyJump_def Let_def using assms by simp

lemma applyJump_direct:
  assumes "destThumb p \<or> \<not> srcThumb p" and run: "applyJump st p = Inr st'"
  shows "m_autogenDataInfoForDest st' = m_autogenDataInfoForDest st"
proof (cases "destThumb p")
  case True
  show ?thesis
  proof (cases "srcThumb p")
    case True
    with \<open>destThumb p\<close> run show ?thesis
      unfolding applyJump_def by (simp add: bin_writeBytes_autogen)
  next
    case False
    with \<open>destThumb p\<close> run show ?thesis
      unfolding applyJump_def by (simp add: bin_writeBytes_autogen)
  qed
next
  case False
  with assms have "\<not> srcThumb p" by simp
  with False run show ?thesis
    unfolding applyJump_def by (simp add: bin_write_u32_autogen)
qed

lemma bridgeBytesOf_jump:
  "patchType p = PatchType_Jump \<Longrightarrow>
     bridgeBytesOf p = (if \<not> destThumb p \<and> srcThumb p then 8 else 0)"
  by (simp add: bridgeBytesOf_def isArm2ThumbJump_def PatchType_Jump_def PatchType_Hook_def)

lemma bridge_step:
  assumes "(case found of
              None \<Rightarrow> Inl e0
            | Some info \<Rightarrow>
                (case W info of Inl e \<Rightarrow> Inl e | Inr st1 \<Rightarrow> Inr (F info st1))) = Inr st'"
  obtains info st1 where "found = Some info" and "W info = Inr st1" and "st' = F info st1"
  using assms by (auto split: option.splits sum.splits)

lemma applyJump_autogen:
  assumes run: "applyJump st p = Inr st'" and jump: "patchType p = PatchType_Jump"
  shows "autogenBytes st' d = autogenBytes st d + (if srcAddressOv p = d then bridgeBytesOf p else 0)"
proof (cases "\<not> destThumb p \<and> srcThumb p")
  case True
  then have nd: "\<not> destThumb p" and s: "srcThumb p" by simp_all
  note eq = run [unfolded applyJump_arm2thumb [OF nd s]]
  from eq obtain info st1 where
    info: "m_autogenDataInfoForDest st (srcAddressOv p) = Some info"
    and w: "bin_write_u32 st (destAddressOv p) (destAddress p)
              (makeJumpOpCode armOpcodeB (destAddress p) (curAddress info)) = Inr st1"
    and st': "st' = st1\<lparr>m_autogenDataInfoForDest :=
                (m_autogenDataInfoForDest st1)(srcAddressOv p \<mapsto>
                   appendBridge info (le_u32 0xE51FF004 @ le_u32 (srcAddress p OR 1)))\<rparr>"
    by (rule bridge_step)
  have len: "length (le_u32 0xE51FF004 @ le_u32 (srcAddress p OR 1)) = 8"
    by (simp add: le_u32_def)
  have "autogenBytes st' d
          = autogenBytes st d
            + (if srcAddressOv p = d
               then length (le_u32 0xE51FF004 @ le_u32 (srcAddress p OR 1)) else 0)"
    unfolding st' by (rule autogenBytes_append [OF info bin_write_u32_autogen [OF w]])
  then show ?thesis
    unfolding len bridgeBytesOf_jump [OF jump] using True by simp
next
  case False
  then have "destThumb p \<or> \<not> srcThumb p" by simp
  then have "m_autogenDataInfoForDest st' = m_autogenDataInfoForDest st"
    using run by (rule applyJump_direct)
  then have "autogenBytes st' d = autogenBytes st d"
    by (rule autogenBytes_cong)
  then show ?thesis
    unfolding bridgeBytesOf_jump [OF jump] using False by auto
qed

lemma applyCall_autogen:
  assumes "applyCall env st p = Inr st'"
  shows "m_autogenDataInfoForDest st' = m_autogenDataInfoForDest st"
  using assms unfolding applyCall_def Let_def
  by (auto simp add: bin_write_u32_autogen split: if_splits)

lemma applyOver_autogen:
  assumes "applyOver env st p = Inr st'"
  shows "m_autogenDataInfoForDest st' = m_autogenDataInfoForDest st"
  using assms unfolding applyOver_def
  by (auto simp add: bin_writeBytes_autogen split: if_splits option.splits)

lemma applyHook_arm:
  assumes "\<not> destThumb p" and "\<not> srcThumb p"
  shows "applyHook st p =
     (case bin_read_u32 st (destAddressOv p) (destAddress p) of
        Inl e \<Rightarrow> Inl e
      | Inr ogOpCode \<Rightarrow>
         (case m_autogenDataInfoForDest st (srcAddressOv p) of
            None \<Rightarrow> Inl noAutogenInfo
          | Some info \<Rightarrow>
             (case bin_write_u32 st (destAddressOv p) (destAddress p)
                     (makeJumpOpCode armOpcodeB (destAddress p) (curAddress info)) of
                Inl e \<Rightarrow> Inl e
              | Inr st1 \<Rightarrow>
                  Inr (st1\<lparr>m_autogenDataInfoForDest :=
                         (m_autogenDataInfoForDest st1)(srcAddressOv p \<mapsto>
                            appendBridge info (hookBridge ogOpCode (curAddress info) p))\<rparr>))))"
  unfolding applyHook_def Let_def using assms by simp

lemma applyHook_thumb:
  assumes "destThumb p \<or> srcThumb p"
  shows "applyHook st p = Inl (fail_inject ''hook'' (srcThumb p) (destThumb p) (symbol p))"
  using assms by (simp add: applyHook_def)

lemma bridgeBytesOf_hook: "patchType p = PatchType_Hook \<Longrightarrow> bridgeBytesOf p = 20"
  by (simp add: bridgeBytesOf_def)

lemma length_hookBridge: "length (hookBridge ogOpCode hookBridgeAddr p) = 20"
  by (simp add: hookBridge_def le_u32_def)

lemma hook_step:
  assumes "(case rd of
              Inl e \<Rightarrow> Inl e
            | Inr og \<Rightarrow>
                (case found of
                   None \<Rightarrow> Inl e0
                 | Some info \<Rightarrow>
                     (case W info of Inl e \<Rightarrow> Inl e | Inr st1 \<Rightarrow> Inr (F og info st1)))) = Inr st'"
  obtains og info st1 where "rd = Inr og" and "found = Some info" and "W info = Inr st1"
    and "st' = F og info st1"
  using assms by (auto split: option.splits sum.splits)

lemma applyHook_autogen:
  assumes run: "applyHook st p = Inr st'" and hook: "patchType p = PatchType_Hook"
  shows "autogenBytes st' d = autogenBytes st d + (if srcAddressOv p = d then bridgeBytesOf p else 0)"
proof -
  have arm: "\<not> destThumb p" "\<not> srcThumb p"
    using run applyHook_thumb [of p st] by auto
  note eq = run [unfolded applyHook_arm [OF arm]]
  from eq obtain og info st1 where
    info: "m_autogenDataInfoForDest st (srcAddressOv p) = Some info"
    and w: "bin_write_u32 st (destAddressOv p) (destAddress p)
              (makeJumpOpCode armOpcodeB (destAddress p) (curAddress info)) = Inr st1"
    and st': "st' = st1\<lparr>m_autogenDataInfoForDest :=
                (m_autogenDataInfoForDest st1)(srcAddressOv p \<mapsto>
                   appendBridge info (hookBridge og (curAddress info) p))\<rparr>"
    by (rule hook_step)
  have "autogenBytes st' d
          = autogenBytes st d
            + (if srcAddressOv p = d then length (hookBridge og (curAddress info) p) else 0)"
    unfolding st' by (rule autogenBytes_append [OF info bin_write_u32_autogen [OF w]])
  then show ?thesis
    unfolding length_hookBridge bridgeBytesOf_hook [OF hook] .
qed

lemma bridgeBytesOf_other:
  assumes "patchType p \<noteq> PatchType_Jump" and "patchType p \<noteq> PatchType_Hook"
  shows "bridgeBytesOf p = 0"
  using assms by (simp add: bridgeBytesOf_def isArm2ThumbJump_def)

lemma applyPatch_autogen:
  assumes "applyPatch env st p = Inr st'"
  shows "autogenBytes st' d = autogenBytes st d + (if srcAddressOv p = d then bridgeBytesOf p else 0)"
proof -
  from assms obtain st1 where sel: "selectBin env st (destAddressOv p) = Inr st1"
    unfolding applyPatch_def by (cases "selectBin env st (destAddressOv p)") simp_all
  have base: "autogenBytes st1 d = autogenBytes st d"
    by (rule autogenBytes_cong) (rule selectBin_autogen [OF sel])
  note run = assms [unfolded applyPatch_def sel sum.case]
  show ?thesis
  proof (cases "patchType p = PatchType_Jump")
    case True
    with run have "applyJump st1 p = Inr st'" by simp
    from applyJump_autogen [OF this True] base show ?thesis by simp
  next
    case notJump: False
    show ?thesis
    proof (cases "patchType p = PatchType_Hook")
      case True
      with run notJump have "applyHook st1 p = Inr st'"
        by (simp add: PatchType_Hook_def PatchType_Call_def)
      from applyHook_autogen [OF this True] base show ?thesis by simp
    next
      case notHook: False
      have "m_autogenDataInfoForDest st' = m_autogenDataInfoForDest st1"
      proof (cases "patchType p = PatchType_Call")
        case True
        with run notJump have "applyCall env st1 p = Inr st'" by simp
        then show ?thesis by (rule applyCall_autogen)
      next
        case notCall: False
        show ?thesis
        proof (cases "patchType p = PatchType_Over")
          case True
          with run notJump notHook notCall have "applyOver env st1 p = Inr st'" by simp
          then show ?thesis by (rule applyOver_autogen)
        next
          case False
          with run notJump notHook notCall show ?thesis by simp
        qed
      qed
      then have "autogenBytes st' d = autogenBytes st1 d" by (rule autogenBytes_cong)
      with base show ?thesis
        by (simp add: bridgeBytesOf_other [OF notJump notHook])
    qed
  qed
qed

lemma applyPatches_autogen:
  assumes "applyPatches env st ps = Inr st'"
  shows "autogenBytes st' d =
           autogenBytes st d + sum_list (map bridgeBytesOf (filter (\<lambda>p. srcAddressOv p = d) ps))"
  using assms
proof (induction ps arbitrary: st)
  case Nil
  then show ?case by simp
next
  case (Cons p ps)
  from Cons.prems obtain st1 where 1: "applyPatch env st p = Inr st1"
    and 2: "applyPatches env st1 ps = Inr st'"
    by (auto split: sum.splits)
  from Cons.IH [OF 2] applyPatch_autogen [OF 1, of d] show ?case by simp
qed

lemma parseAddressAndBuild_srcAddressOv:
  assumes "parseAddressAndBuild addrToInt srcFileJob symbolName symbolAddr sIdx sSize
             labelName e kind = Patch p"
    and "patchType p \<noteq> PatchType_Over"
  shows "srcAddressOv p = destination (region (job p))"
proof -
  obtain t f s where kind: "kind = (t, f, s)" by (cases kind)
  from assms show ?thesis
    unfolding parseAddressAndBuild_def Let_def kind prod.case
    by (auto split: option.splits sum.splits)
qed

lemma parseSymbol_srcAddressOv:
  assumes "parseSymbol addrToInt srcFileJob symbolName symbolAddr sIdx sSize = Patch p"
    and "patchType p \<noteq> PatchType_Over"
  shows "srcAddressOv p = destination (region (job p))"
proof -
  from assms(1) obtain labelName e kind where
    "parseAddressAndBuild addrToInt srcFileJob symbolName symbolAddr sIdx sSize
       labelName e kind = Patch p"
    unfolding parseSymbol_def Let_def
    by (auto split: option.splits if_splits)
  then show ?thesis using assms(2) by (rule parseAddressAndBuild_srcAddressOv)
qed

lemma resolved_fields:
  assumes "resolved p p'"
  shows "patchType p' = patchType p" and "srcAddressOv p' = srcAddressOv p"
    and "job p' = job p" and "destThumb p' = destThumb p" and "srcThumb p' = srcThumb p"
proof -
  let ?q = "p\<lparr>srcAddress := srcAddress p', sectionIdx := sectionIdx p', symbol := symbol p'\<rparr>"
  from assms have eq: "p' = ?q" by (simp only: resolved_def)
  have "patchType p' = patchType ?q" by (rule arg_cong [OF eq])
  then show "patchType p' = patchType p" by simp
  have "srcAddressOv p' = srcAddressOv ?q" by (rule arg_cong [OF eq])
  then show "srcAddressOv p' = srcAddressOv p" by simp
  have "job p' = job ?q" by (rule arg_cong [OF eq])
  then show "job p' = job p" by simp
  have "destThumb p' = destThumb ?q" by (rule arg_cong [OF eq])
  then show "destThumb p' = destThumb p" by simp
  have "srcThumb p' = srcThumb ?q" by (rule arg_cong [OF eq])
  then show "srcThumb p' = srcThumb p" by simp
qed

lemma resolved_refl: "resolved p p"
  by (simp add: resolved_def)

lemma bridgeBytesOf_resolved: "resolved p p' \<Longrightarrow> bridgeBytesOf p' = bridgeBytesOf p"
  by (simp add: bridgeBytesOf_def isArm2ThumbJump_def resolved_fields)

lemma bridgeBytesOf_Over: "patchType p = PatchType_Over \<Longrightarrow> bridgeBytesOf p = 0"
  by (simp add: bridgeBytesOf_def isArm2ThumbJump_def PatchType_Over_def PatchType_Hook_def
      PatchType_Jump_def)

lemma regionBridgeBytes_sum:
  "regionBridgeBytes d ps =
     sum_list (map (\<lambda>p. if destination (region (job p)) = d then bridgeBytesOf p else 0) ps)"
  by (induction ps) (simp_all add: regionBridgeBytes_Nil regionBridgeBytes_Cons bridgeBytesOf_def)

lemma written_eq_reserved:
  assumes "list_all2 resolved ps ps'"
    and "\<forall>p \<in> set ps. patchType p \<noteq> PatchType_Over
           \<longrightarrow> srcAddressOv p = destination (region (job p))"
  shows "sum_list (map bridgeBytesOf (filter (\<lambda>p. srcAddressOv p = d) (take n ps')))
           = regionBridgeBytes d (take n ps)"
  using assms
proof (induction ps ps' arbitrary: n rule: list_all2_induct)
  case Nil
  then show ?case by (simp add: regionBridgeBytes_Nil)
next
  case (Cons p ps p' ps')
  show ?case
  proof (cases n)
    case 0
    then show ?thesis by (simp add: regionBridgeBytes_Nil)
  next
    case (Suc m)
    from Cons.prems have rest: "\<forall>p \<in> set ps. patchType p \<noteq> PatchType_Over
           \<longrightarrow> srcAddressOv p = destination (region (job p))"
      by simp
    have head: "(if srcAddressOv p' = d then bridgeBytesOf p' else 0)
                 = (if destination (region (job p)) = d then bridgeBytesOf p else 0)"
    proof (cases "patchType p = PatchType_Over")
      case True
      then show ?thesis
        by (simp add: bridgeBytesOf_resolved [OF Cons.hyps(1)] bridgeBytesOf_Over)
    next
      case False
      with Cons.prems have "srcAddressOv p = destination (region (job p))" by simp
      then show ?thesis
        by (simp add: bridgeBytesOf_resolved [OF Cons.hyps(1)] resolved_fields [OF Cons.hyps(1)])
    qed
    have "regionBridgeBytes d (take n (p # ps))
            = (if destination (region (job p)) = d then bridgeBytesOf p else 0)
              + regionBridgeBytes d (take m ps)"
      by (simp add: Suc regionBridgeBytes_sum)
    moreover have "sum_list (map bridgeBytesOf (filter (\<lambda>p. srcAddressOv p = d) (take n (p' # ps'))))
            = (if srcAddressOv p' = d then bridgeBytesOf p' else 0)
              + sum_list (map bridgeBytesOf (filter (\<lambda>p. srcAddressOv p = d) (take m ps')))"
      by (simp add: Suc)
    ultimately show ?thesis
      using Cons.IH [OF rest, of m] head by simp
  qed
qed

lemma regionBridgeBytes_take_le: "regionBridgeBytes d (take n ps) \<le> regionBridgeBytes d ps"
proof -
  have "regionBridgeBytes d ps
          = regionBridgeBytes d (take n ps) + regionBridgeBytes d (drop n ps)"
    unfolding regionBridgeBytes_sum
    by (simp only: sum_list_append [symmetric] map_append [symmetric] append_take_drop_id)
  then show ?thesis by simp
qed

lemma regionBridgeBytes_elsewhere:
  assumes "\<forall>p \<in> set ps. destination (region (job p)) \<noteq> d"
  shows "regionBridgeBytes d ps = 0"
  using assms by (induction ps) (simp_all add: regionBridgeBytes_Nil regionBridgeBytes_Cons)

text \<open>
  C3: the linker script has one region entry for each region of the target, in the same
  order and with that region's destination. The \<open>autogenDataSize\<close> reserved in the entry is
  20 bytes per Hook patch plus 8 bytes per Jump patch with \<open>destThumb\<close> false and \<open>srcThumb\<close>
  true among the patches whose job belongs to a region of that destination. When the patches
  are the parser's (every patch but an \<open>over\<close> has the destination of its job's region as
  \<open>srcAddressOv\<close>), the bytes that any number of applied patches append to the autogen buffer
  of that destination never exceed the reserved size, and equal it once all patches are
  applied. A destination that is no region's receives no bridge byte when every job belongs
  to a region of the target.
\<close>

theorem C3_autogen_reservation:
  assumes parsed: "\<forall>p \<in> set ps. patchType p \<noteq> PatchType_Over
                     \<longrightarrow> srcAddressOv p = destination (region (job p))"
    and linked: "list_all2 resolved ps ps'"
    and run: "applyPatches env st (take n ps') = Inr st'"
  shows "map dest (createLinkerScript_regions orderedRegions ps) = map destination orderedRegions
       \<and> (\<forall>k < length orderedRegions.
            autogenDataSize (createLinkerScript_regions orderedRegions ps ! k) =
              20 * length (filter (\<lambda>p. patchType p = PatchType_Hook
                       \<and> destination (region (job p)) = destination (orderedRegions ! k)) ps)
              + 8 * length (filter (\<lambda>p. patchType p = PatchType_Jump
                       \<and> \<not> destThumb p \<and> srcThumb p
                       \<and> destination (region (job p)) = destination (orderedRegions ! k)) ps)
            \<and> autogenBytes st' (destination (orderedRegions ! k))
                \<le> autogenBytes st (destination (orderedRegions ! k))
                  + autogenDataSize (createLinkerScript_regions orderedRegions ps ! k)
            \<and> (length ps' \<le> n \<longrightarrow>
                 autogenBytes st' (destination (orderedRegions ! k))
                   = autogenBytes st (destination (orderedRegions ! k))
                     + autogenDataSize (createLinkerScript_regions orderedRegions ps ! k)))
       \<and> ((\<forall>p \<in> set ps. destination (region (job p)) \<in> destination ` set orderedRegions)
            \<longrightarrow> (\<forall>d. d \<notin> destination ` set orderedRegions
                      \<longrightarrow> autogenBytes st' d = autogenBytes st d))"
proof -
  have written: "autogenBytes st' d = autogenBytes st d + regionBridgeBytes d (take n ps)" for d
    using applyPatches_autogen [OF run, of d] written_eq_reserved [OF linked parsed, of d n]
    by simp
  have entries: "map dest (createLinkerScript_regions orderedRegions ps)
                   = map destination orderedRegions"
    by (rule createLinkerScript_regions_dest)
  have each: "autogenDataSize (createLinkerScript_regions orderedRegions ps ! k) =
              20 * length (filter (\<lambda>p. patchType p = PatchType_Hook
                       \<and> destination (region (job p)) = destination (orderedRegions ! k)) ps)
              + 8 * length (filter (\<lambda>p. patchType p = PatchType_Jump
                       \<and> \<not> destThumb p \<and> srcThumb p
                       \<and> destination (region (job p)) = destination (orderedRegions ! k)) ps)
            \<and> autogenBytes st' (destination (orderedRegions ! k))
                \<le> autogenBytes st (destination (orderedRegions ! k))
                  + autogenDataSize (createLinkerScript_regions orderedRegions ps ! k)
            \<and> (length ps' \<le> n \<longrightarrow>
                 autogenBytes st' (destination (orderedRegions ! k))
                   = autogenBytes st (destination (orderedRegions ! k))
                     + autogenDataSize (createLinkerScript_regions orderedRegions ps ! k))"
    if k: "k < length orderedRegions" for k
  proof -
    let ?d = "destination (orderedRegions ! k)"
    let ?r = "createLinkerScript_regions orderedRegions ps ! k"
    have size: "autogenDataSize ?r = regionBridgeBytes ?d ps"
      using k by (rule createLinkerScript_regions_nth)
    have "autogenDataSize ?r =
              20 * length (filter (\<lambda>p. patchType p = PatchType_Hook
                       \<and> destination (region (job p)) = ?d) ps)
              + 8 * length (filter (\<lambda>p. patchType p = PatchType_Jump
                       \<and> \<not> destThumb p \<and> srcThumb p
                       \<and> destination (region (job p)) = ?d) ps)"
      unfolding size regionBridgeBytes_def isArm2ThumbJump_def by (simp add: conj_ac)
    moreover have "autogenBytes st' ?d \<le> autogenBytes st ?d + autogenDataSize ?r"
      unfolding size written [of ?d] using regionBridgeBytes_take_le [of ?d n ps] by simp
    moreover have "length ps' \<le> n \<longrightarrow>
        autogenBytes st' ?d = autogenBytes st ?d + autogenDataSize ?r"
    proof
      assume "length ps' \<le> n"
      moreover from linked have "length ps = length ps'" by (rule list_all2_lengthD)
      ultimately have "take n ps = ps" by simp
      then show "autogenBytes st' ?d = autogenBytes st ?d + autogenDataSize ?r"
        by (simp add: size written [of ?d])
    qed
    ultimately show ?thesis by (intro conjI)
  qed
  have outside: "autogenBytes st' d = autogenBytes st d"
    if jobs: "\<forall>p \<in> set ps. destination (region (job p)) \<in> destination ` set orderedRegions"
      and d: "d \<notin> destination ` set orderedRegions" for d
  proof -
    have "\<forall>p \<in> set (take n ps). destination (region (job p)) \<noteq> d"
    proof
      fix p assume "p \<in> set (take n ps)"
      then have "p \<in> set ps" by (rule in_set_takeD)
      with jobs have "destination (region (job p)) \<in> destination ` set orderedRegions" by blast
      with d show "destination (region (job p)) \<noteq> d" by blast
    qed
    then have "regionBridgeBytes d (take n ps) = 0" by (rule regionBridgeBytes_elsewhere)
    then show ?thesis by (simp add: written [of d])
  qed
  from entries each outside show ?thesis by blast
qed

theorem C3_autogen_reservation_witness:
  "map (\<lambda>r. (dest r, autogenDataSize r))
     (createLinkerScript_regions example_regions
        (map (\<lambda>p. p\<lparr>srcAddress := 0\<rparr>) two_region_patches)) = [(3, 20), (-1, 28)]
   \<and> autogenBytes two_region_state 3 = 0
   \<and> autogenBytes two_region_state (-1) = 0
   \<and> (\<exists>st'. applyPatches example_env two_region_state two_region_patches = Inr st'
            \<and> autogenBytes st' 3 = 20
            \<and> autogenBytes st' (-1) = 28
            \<and> autogenBytes st' 5 = 0)"
proof -
  let ?ps = "map (\<lambda>p. p\<lparr>srcAddress := 0\<rparr>) two_region_patches"
  have regions: "map (\<lambda>r. (dest r, autogenDataSize r))
      (createLinkerScript_regions example_regions ?ps) = [(3, 20), (-1, 28)]"
    by (simp add: createLinkerScript_regions_def planPatch_def updateRegionEntry_def
        newRegionEntry_def example_eval two_region_eval
        SizeOfHookBridge_def SizeOfArm2ThumbJumpBridge_def
        PatchType_Jump_def PatchType_Hook_def PatchType_Over_def)
  have len: "length (createLinkerScript_regions example_regions ?ps) = 2"
    using arg_cong [OF regions, of length] by simp
  have size0: "autogenDataSize (createLinkerScript_regions example_regions ?ps ! 0) = 20"
    using arg_cong [OF regions, of "\<lambda>xs. snd (xs ! 0)"] len by simp
  have size1: "autogenDataSize (createLinkerScript_regions example_regions ?ps ! Suc 0) = 28"
    using arg_cong [OF regions, of "\<lambda>xs. snd (xs ! Suc 0)"] len by simp
  have parsed: "\<forall>p \<in> set ?ps. patchType p \<noteq> PatchType_Over
                     \<longrightarrow> srcAddressOv p = destination (region (job p))"
    by (simp add: example_eval two_region_eval)
  have linked: "list_all2 resolved ?ps two_region_patches"
    by (simp add: resolved_def example_eval two_region_eval)
  have jobs: "\<forall>p \<in> set ?ps. destination (region (job p)) \<in> destination ` set example_regions"
    by (simp add: example_eval two_region_eval)
  have fresh: "autogenBytes two_region_state 3 = 0" "autogenBytes two_region_state (-1) = 0"
    "autogenBytes two_region_state 5 = 0"
    by (simp_all add: autogenBytes_def example_eval two_region_eval)
  have d0: "destination (example_regions ! 0) = 3" and d1: "destination (example_regions ! Suc 0) = -1"
    and d5: "5 \<notin> destination ` set example_regions"
    by (simp_all add: example_eval two_region_eval)
  obtain st' where
    run: "applyPatches example_env two_region_state (take 3 two_region_patches) = Inr st'"
    by (simp add: apply_eval example_eval two_region_eval)
  note main = C3_autogen_reservation [OF parsed linked run, of example_regions]
  from main have all: "\<And>k. k < length example_regions \<Longrightarrow>
       length two_region_patches \<le> 3 \<longrightarrow>
         autogenBytes st' (destination (example_regions ! k))
           = autogenBytes two_region_state (destination (example_regions ! k))
             + autogenDataSize (createLinkerScript_regions example_regions ?ps ! k)"
    by blast
  have n: "length two_region_patches \<le> 3" "0 < length example_regions"
    "Suc 0 < length example_regions"
    by (simp_all add: example_eval two_region_eval)
  from all [of 0] n have w0: "autogenBytes st' 3 = 20"
    by (simp add: d0 size0 fresh)
  from all [of "Suc 0"] n have w1: "autogenBytes st' (-1) = 28"
    by (simp add: d1 size1 fresh)
  from main jobs d5 have "autogenBytes st' 5 = autogenBytes two_region_state 5" by blast
  then have w5: "autogenBytes st' 5 = 0" by (simp add: fresh)
  have take3: "take 3 two_region_patches = two_region_patches"
    by (simp add: example_eval two_region_eval)
  from run w0 w1 w5 have "\<exists>st'. applyPatches example_env two_region_state two_region_patches = Inr st'
            \<and> autogenBytes st' 3 = 20 \<and> autogenBytes st' (-1) = 28 \<and> autogenBytes st' 5 = 0"
    unfolding take3 by blast
  with regions fresh show ?thesis by blast
qed

section \<open>Hook bridges\<close>

lemma length_le_u32: "length (le_u32 v) = 4"
  by (simp add: le_u32_def)

lemma of_le_u32_le_u32: "of_le_u32 (le_u32 w @ rest) = w"
proof -
  have "(ucast (ucast w :: u8) :: u32) OR push_bit 8 (ucast (ucast (drop_bit 8 w) :: u8))
        OR push_bit 16 (ucast (ucast (drop_bit 16 w) :: u8))
        OR push_bit 24 (ucast (ucast (drop_bit 24 w) :: u8)) = w"
  proof (rule bit_word_eqI)
    fix n assume "n < LENGTH(32)"
    then consider "n < 8" | "8 \<le> n" "n < 16" | "16 \<le> n" "n < 24" | "24 \<le> n" "n < 32"
      by fastforce
    then show "bit ((ucast (ucast w :: u8) :: u32) OR push_bit 8 (ucast (ucast (drop_bit 8 w) :: u8))
        OR push_bit 16 (ucast (ucast (drop_bit 16 w) :: u8))
        OR push_bit 24 (ucast (ucast (drop_bit 24 w) :: u8))) n = bit w n"
      by cases (auto simp add: bit_simps)
  qed
  then show ?thesis by (simp add: le_u32_def)
qed

lemma read_after_write:
  assumes "write_u32 bin addr v = Inr bin'"
  shows "read_u32 bin' addr = Inr v"
proof -
  define off where "off = unat (addr - bin_ramAddress bin)"
  from assms have rng: "off + 4 \<le> length (bin_data bin)"
    and bin': "bin' = bin\<lparr>bin_data := take off (bin_data bin) @ le_u32 v
                               @ drop (off + 4) (bin_data bin)\<rparr>"
    by (auto simp add: write_u32_def writeBytes_def in_range_def length_le_u32 off_def Let_def
        split: if_splits)
  from rng have len: "length (take off (bin_data bin)) = off" by simp
  have "drop off (bin_data bin') = le_u32 v @ drop (off + 4) (bin_data bin)"
    unfolding bin' using len by simp
  then have "take 4 (drop off (bin_data bin')) = le_u32 v"
    by (simp add: length_le_u32)
  moreover have "in_range bin' addr 4"
    using rng by (simp add: in_range_def bin' off_def length_le_u32)
  moreover have "bin_ramAddress bin' = bin_ramAddress bin" by (simp add: bin')
  ultimately show ?thesis
    using of_le_u32_le_u32 [of v "[]"] by (simp add: read_u32_def off_def)
qed

lemma bin_read_after_write:
  assumes "bin_write_u32 st ov addr v = Inr st'"
  shows "bin_read_u32 st' ov addr = Inr v"
    and "m_autogenDataInfoForDest st' = m_autogenDataInfoForDest st"
proof -
  show "m_autogenDataInfoForDest st' = m_autogenDataInfoForDest st"
    using assms
    by (auto simp add: bin_write_u32_def bin_writeBytes_def split: if_splits sum.splits option.splits)
  show "bin_read_u32 st' ov addr = Inr v"
  proof (cases "ov = -1")
    case True
    with assms obtain b where "write_u32 (m_arm st) addr v = Inr b" "st' = st\<lparr>m_arm := b\<rparr>"
      by (auto simp add: bin_write_u32_def bin_writeBytes_def write_u32_def split: sum.splits)
    with True show ?thesis by (simp add: bin_read_u32_def read_after_write)
  next
    case False
    with assms obtain b0 b where "write_u32 b0 addr v = Inr b"
      "st' = st\<lparr>m_loadedOverlays := AList.update (nat ov) b (m_loadedOverlays st)\<rparr>"
      by (auto simp add: bin_write_u32_def bin_writeBytes_def write_u32_def
          split: sum.splits option.splits)
    with False show ?thesis
      by (simp add: bin_read_u32_def read_after_write update_conv')
  qed
qed

lemma bin_read_autogen_update:
  "bin_read_u32 (st\<lparr>m_autogenDataInfoForDest := m\<rparr>) ov addr = bin_read_u32 st ov addr"
  by (simp add: bin_read_u32_def)

lemma bin_write_after_read:
  assumes "bin_read_u32 st ov addr = Inr og"
  shows "\<exists>st'. bin_write_u32 st ov addr v = Inr st'"
  using assms
  by (auto simp add: bin_read_u32_def bin_write_u32_def bin_writeBytes_def read_u32_def
      writeBytes_def length_le_u32 Let_def split: if_splits option.splits)

lemma applyPatch_hook:
  assumes "patchType p = PatchType_Hook"
    and "selectBin env st (destAddressOv p) = Inr st1"
  shows "applyPatch env st p = applyHook st1 p"
  using assms by (simp add: applyPatch_def PatchType_Hook_def PatchType_Jump_def PatchType_Call_def)

text \<open>
  C4: a Hook patch with \<open>srcThumb\<close> or \<open>destThumb\<close> set is fatal (the error of
  \<open>failInject\<close>, unless already selecting the binary failed). For a Hook patch with both
  clear, whose destination word can be read and whose autogen record exists, the applier
  returns; it has appended 20 bytes to the autogen buffer, at the cursor
  \<open>curAddress\<close> (the bridge address): \<open>PUSH {R0-R3,R12,LR}\<close>, a \<open>BL\<close> to \<open>srcAddress\<close>
  encoded from bridge+4, \<open>POP {R0-R3,R12,LR}\<close>, the original opcode (re-targeted against
  bridge+12 when its bits 27..25 are \<open>0b101\<close>, otherwise unchanged) and a \<open>B\<close> to
  \<open>destAddress + 4\<close> encoded from bridge+16; the cursor has advanced by 20; and the word
  at \<open>destAddress\<close> is a \<open>B\<close> to the bridge.
\<close>

theorem C4_hook_bridge:
  assumes hook: "patchType p = PatchType_Hook"
  shows "(srcThumb p \<or> destThumb p \<longrightarrow>
            applyPatch env st p
              = (case selectBin env st (destAddressOv p) of
                   Inl e \<Rightarrow> Inl e
                 | Inr _ \<Rightarrow> Inl (fail_inject ''hook'' (srcThumb p) (destThumb p) (symbol p))))
       \<and> (\<not> srcThumb p \<and> \<not> destThumb p
            \<and> selectBin env st (destAddressOv p) = Inr st1
            \<and> bin_read_u32 st1 (destAddressOv p) (destAddress p) = Inr ogOpCode
            \<and> m_autogenDataInfoForDest st1 (srcAddressOv p) = Some info \<longrightarrow>
          (\<exists>st'. applyPatch env st p = Inr st'
             \<and> m_autogenDataInfoForDest st' (srcAddressOv p) =
                 Some (info\<lparr>data := data info
                         @ le_u32 0xE92D500F
                         @ le_u32 (makeJumpOpCode 0xEB000000 (curAddress info + 4) (srcAddress p))
                         @ le_u32 0xE8BD500F
                         @ le_u32 (if drop_bit 25 ogOpCode AND 7 = 5
                                   then makeJumpOpCode (ogOpCode AND 0xFF000000)
                                          (curAddress info + 12)
                                          (push_bit 2 ((ogOpCode AND 0xFFFFFF) + 2) + destAddress p)
                                   else ogOpCode)
                         @ le_u32 (makeJumpOpCode 0xEA000000 (curAddress info + 16) (destAddress p + 4)),
                       curAddress := curAddress info + 20\<rparr>)
             \<and> bin_read_u32 st' (destAddressOv p) (destAddress p)
                 = Inr (makeJumpOpCode 0xEA000000 (destAddress p) (curAddress info))))"
proof (intro conjI impI)
  assume thumb: "srcThumb p \<or> destThumb p"
  show "applyPatch env st p
              = (case selectBin env st (destAddressOv p) of
                   Inl e \<Rightarrow> Inl e
                 | Inr _ \<Rightarrow> Inl (fail_inject ''hook'' (srcThumb p) (destThumb p) (symbol p)))"
  proof (cases "selectBin env st (destAddressOv p)")
    case (Inl e)
    then show ?thesis by (simp add: applyPatch_def)
  next
    case (Inr st1)
    from thumb have "destThumb p \<or> srcThumb p" by blast
    then show ?thesis
      unfolding applyPatch_hook [OF hook Inr] Inr by (simp add: applyHook_thumb)
  qed
next
  assume a: "\<not> srcThumb p \<and> \<not> destThumb p
            \<and> selectBin env st (destAddressOv p) = Inr st1
            \<and> bin_read_u32 st1 (destAddressOv p) (destAddress p) = Inr ogOpCode
            \<and> m_autogenDataInfoForDest st1 (srcAddressOv p) = Some info"
  then have sel: "selectBin env st (destAddressOv p) = Inr st1" by simp
  let ?bridge = "curAddress info"
  let ?b = "makeJumpOpCode armOpcodeB (destAddress p) ?bridge"
  from a obtain st2 where
    w: "bin_write_u32 st1 (destAddressOv p) (destAddress p) ?b = Inr st2"
    using bin_write_after_read by blast
  let ?st' = "st2\<lparr>m_autogenDataInfoForDest :=
                (m_autogenDataInfoForDest st2)(srcAddressOv p \<mapsto>
                   appendBridge info (hookBridge ogOpCode ?bridge p))\<rparr>"
  have run: "applyPatch env st p = Inr ?st'"
    unfolding applyPatch_hook [OF hook sel] using a w by (simp add: applyHook_def)
  have info': "m_autogenDataInfoForDest ?st' (srcAddressOv p) =
      Some (info\<lparr>data := data info
                         @ le_u32 0xE92D500F
                         @ le_u32 (makeJumpOpCode 0xEB000000 (curAddress info + 4) (srcAddress p))
                         @ le_u32 0xE8BD500F
                         @ le_u32 (if drop_bit 25 ogOpCode AND 7 = 5
                                   then makeJumpOpCode (ogOpCode AND 0xFF000000)
                                          (curAddress info + 12)
                                          (push_bit 2 ((ogOpCode AND 0xFFFFFF) + 2) + destAddress p)
                                   else ogOpCode)
                         @ le_u32 (makeJumpOpCode 0xEA000000 (curAddress info + 16) (destAddress p + 4)),
                       curAddress := curAddress info + 20\<rparr>)"
    by (simp add: appendBridge_def length_hookBridge)
       (simp add: hookBridge_def fixupOpCode_def armHookPush_def armHookPop_def
          armOpcodeB_def armOpcodeBL_def Let_def)
  have rd: "bin_read_u32 ?st' (destAddressOv p) (destAddress p)
                 = Inr (makeJumpOpCode 0xEA000000 (destAddress p) (curAddress info))"
    using bin_read_after_write(1) [OF w]
    by (simp add: bin_read_autogen_update armOpcodeB_def)
  from run info' rd
  show "\<exists>st'. applyPatch env st p = Inr st'
             \<and> m_autogenDataInfoForDest st' (srcAddressOv p) =
                 Some (info\<lparr>data := data info
                         @ le_u32 0xE92D500F
                         @ le_u32 (makeJumpOpCode 0xEB000000 (curAddress info + 4) (srcAddress p))
                         @ le_u32 0xE8BD500F
                         @ le_u32 (if drop_bit 25 ogOpCode AND 7 = 5
                                   then makeJumpOpCode (ogOpCode AND 0xFF000000)
                                          (curAddress info + 12)
                                          (push_bit 2 ((ogOpCode AND 0xFFFFFF) + 2) + destAddress p)
                                   else ogOpCode)
                         @ le_u32 (makeJumpOpCode 0xEA000000 (curAddress info + 16) (destAddress p + 4)),
                       curAddress := curAddress info + 20\<rparr>)
             \<and> bin_read_u32 st' (destAddressOv p) (destAddress p)
                 = Inr (makeJumpOpCode 0xEA000000 (destAddress p) (curAddress info))"
    by blast
qed

theorem C4_hook_bridge_witness:
  "applyPatch example_env hook_state (example_hook\<lparr>srcThumb := True\<rparr>)
     = Inl (fail_inject ''hook'' True False ''ncp_hook_02000004'')
   \<and> (\<exists>st'. applyPatch example_env hook_state example_hook = Inr st'
         \<and> m_autogenDataInfoForDest st' (-1) =
             Some \<lparr>address = 0x02030000, curAddress = 0x02030014,
                   data = [0x0F, 0x50, 0x2D, 0xE9, 0xFD, 0xBF, 0xFF, 0xEB,
                           0x0F, 0x50, 0xBD, 0xE8, 0x00, 0x00, 0xA0, 0xE1,
                           0xFC, 0x3F, 0xFF, 0xEA]\<rparr>
         \<and> bin_read_u32 st' (-1) 0x02000004 = Inr 0xEA00BFFD)"
proof -
  have hook: "patchType example_hook = PatchType_Hook"
    "patchType (example_hook\<lparr>srcThumb := True\<rparr>) = PatchType_Hook"
    by (simp_all add: example_hook_def)
  have pre: "\<not> srcThumb example_hook \<and> \<not> destThumb example_hook
       \<and> selectBin example_env hook_state (destAddressOv example_hook) = Inr hook_state
       \<and> bin_read_u32 hook_state (destAddressOv example_hook) (destAddress example_hook)
           = Inr 0xE1A00000
       \<and> m_autogenDataInfoForDest hook_state (srcAddressOv example_hook) = Some example_autogen"
    by (simp add: selectBin_def bin_read_u32_def read_u32_def in_range_def example_eval)
  from C4_hook_bridge [OF hook(2), of example_env hook_state, THEN conjunct1]
  have a: "applyPatch example_env hook_state (example_hook\<lparr>srcThumb := True\<rparr>)
     = Inl (fail_inject ''hook'' True False ''ncp_hook_02000004'')"
    by (simp add: selectBin_def example_hook_def)
  from C4_hook_bridge [OF hook(1), THEN conjunct2, rule_format, OF pre]
  obtain st' where
    run: "applyPatch example_env hook_state example_hook = Inr st'"
    and info: "m_autogenDataInfoForDest st' (srcAddressOv example_hook) =
                 Some (example_autogen\<lparr>data := data example_autogen
                         @ le_u32 0xE92D500F
                         @ le_u32 (makeJumpOpCode 0xEB000000 (curAddress example_autogen + 4)
                                     (srcAddress example_hook))
                         @ le_u32 0xE8BD500F
                         @ le_u32 (if drop_bit 25 (0xE1A00000 :: u32) AND 7 = 5
                                   then makeJumpOpCode (0xE1A00000 AND 0xFF000000)
                                          (curAddress example_autogen + 12)
                                          (push_bit 2 ((0xE1A00000 AND 0xFFFFFF) + 2)
                                            + destAddress example_hook)
                                   else 0xE1A00000)
                         @ le_u32 (makeJumpOpCode 0xEA000000 (curAddress example_autogen + 16)
                                     (destAddress example_hook + 4)),
                       curAddress := curAddress example_autogen + 20\<rparr>)"
    and rd: "bin_read_u32 st' (destAddressOv example_hook) (destAddress example_hook)
                 = Inr (makeJumpOpCode 0xEA000000 (destAddress example_hook)
                          (curAddress example_autogen))"
    by blast
  have b: "m_autogenDataInfoForDest st' (-1) =
             Some \<lparr>address = 0x02030000, curAddress = 0x02030014,
                   data = [0x0F, 0x50, 0x2D, 0xE9, 0xFD, 0xBF, 0xFF, 0xEB,
                           0x0F, 0x50, 0xBD, 0xE8, 0x00, 0x00, 0xA0, 0xE1,
                           0xFC, 0x3F, 0xFF, 0xEA]\<rparr>"
    using info by (simp add: example_hook_def example_autogen_def example_job_def
        le_u32_def makeJumpOpCode_def)
  have c: "bin_read_u32 st' (-1) 0x02000004 = Inr 0xEA00BFFD"
    using rd by (simp add: example_hook_def example_autogen_def example_job_def
        makeJumpOpCode_def)
  from a run b c show ?thesis by blast
qed

end
